theory Spec2Isabelle
  imports Main
begin

section \<open>Data model\<close>

text \<open>
  The package \<^verbatim>\<open>resources\<close> (file \<^verbatim>\<open>pkg/resources/k8sgpt.go\<close>) builds five Kubernetes
  objects from a K8sGPT configuration and creates, patches or deletes them through a
  cluster client. Go structs are records whose fields carry a short prefix (record fields
  share one name space in HOL); a nullable pointer is an \<open>option\<close>; a Go map literal is an
  association list; only the fields that the package reads or writes are kept.
\<close>

subsection \<open>Errors\<close>

text \<open>
  A Go \<^verbatim>\<open>error\<close> is either made by \<^verbatim>\<open>errors.New\<close> (standard library, imported as
  \<^verbatim>\<open>err\<close>) or is a status error of the cluster API, which the predicates of
  \<^verbatim>\<open>k8s.io/apimachinery/pkg/api/errors\<close> classify by its reason. A nil error is \<open>None\<close>
  of \<open>error option\<close>.
\<close>

datatype StatusReason = NotFound | AlreadyExists | Conflict | OtherReason string

datatype error = ErrorNew string | StatusError StatusReason string

fun IsNotFound :: "error \<Rightarrow> bool" where
  "IsNotFound (StatusError NotFound _) = True"
| "IsNotFound _ = False"

fun IsAlreadyExists :: "error \<Rightarrow> bool" where
  "IsAlreadyExists (StatusError AlreadyExists _) = True"
| "IsAlreadyExists _ = False"

fun IsConflict :: "error \<Rightarrow> bool" where
  "IsConflict (StatusError Conflict _) = True"
| "IsConflict _ = False"

subsection \<open>The configuration (\<^verbatim>\<open>v1alpha1.K8sGPT\<close>)\<close>

record SecretRef =
  sr_Name :: string
  sr_Key :: string

record CredentialsRef =
  cr_Name :: string

text \<open>
  The two backend blocks of the remote cache are only tested against nil
  (lines 303 and 307); none of their fields is read.
\<close>

datatype AzureBackend = AzureBackend
datatype S3Backend = S3Backend

text \<open>
  Modelled from the spec: the declaration of \<^verbatim>\<open>v1alpha1.RemoteCacheRef\<close> is not part of
  the source file. The spec describes an optional remote-cache block with two nullable
  provider sub-fields and a credential reference; line 293 reads
  \<^verbatim>\<open>config.Spec.RemoteCache.Credentials.Name\<close> without a nil check, so the credential
  reference is a value with a name.
\<close>

record RemoteCacheRef =
  rc_Credentials :: CredentialsRef
  rc_S3 :: "S3Backend option"
  rc_Azure :: "AzureBackend option"

record AISpec =
  ai_Backend :: string
  ai_BaseUrl :: string
  ai_Model :: string
  ai_Engine :: string
  ai_Secret :: "SecretRef option"

record K8sGPTSpec =
  sp_Repository :: string
  sp_Version :: string
  sp_AI :: AISpec
  sp_RemoteCache :: "RemoteCacheRef option"

record K8sGPT =
  cfg_Kind :: string
  cfg_APIVersion :: string
  cfg_Name :: string
  cfg_Namespace :: string
  cfg_UID :: string
  cfg_Spec :: K8sGPTSpec

text \<open>
  Modelled from the spec: the constant \<^verbatim>\<open>v1alpha1.AzureOpenAI\<close> is declared outside the
  source file. The spec calls it the one provider value that supports an engine; the
  comment at line 322 and the error message at line 332 name that provider
  \<^verbatim>\<open>azureopenai\<close>. The general theorems below do not unfold this definition.
\<close>

definition AzureOpenAI :: string where
  "AzureOpenAI = ''azureopenai''"

subsection \<open>Kubernetes objects\<close>

record OwnerReference =
  or_APIVersion :: string
  or_Kind :: string
  or_Name :: string
  or_UID :: string
  or_Controller :: "bool option"
  or_BlockOwnerDeletion :: "bool option"

record ObjectMeta =
  om_Name :: string
  om_Namespace :: string
  om_ResourceVersion :: string
  om_Labels :: "(string \<times> string) list"
  om_OwnerReferences :: "OwnerReference list"

definition ObjectMeta_zero :: ObjectMeta where
  "ObjectMeta_zero =
     \<lparr>om_Name = [], om_Namespace = [], om_ResourceVersion = [], om_Labels = [],
      om_OwnerReferences = []\<rparr>"

record ServicePort =
  sp_Port :: int

record ServiceSpec =
  ss_Selector :: "(string \<times> string) list"
  ss_Ports :: "ServicePort list"
  ss_ClusterIP :: string

record ServiceStatus =
  sst_LoadBalancerIngress :: "string list"

record Service =
  svc_ObjectMeta :: ObjectMeta
  svc_Spec :: ServiceSpec
  svc_Status :: ServiceStatus

record ServiceAccount =
  sa_ObjectMeta :: ObjectMeta

record Subject =
  sub_Kind :: string
  sub_Name :: string
  sub_Namespace :: string

record RoleRef =
  rr_Kind :: string
  rr_Name :: string
  rr_APIGroup :: string

record ClusterRoleBinding =
  crb_ObjectMeta :: ObjectMeta
  crb_Subjects :: "Subject list"
  crb_RoleRef :: RoleRef

record PolicyRule =
  pr_APIGroups :: "string list"
  pr_Resources :: "string list"
  pr_Verbs :: "string list"

record ClusterRole =
  cro_ObjectMeta :: ObjectMeta
  cro_Rules :: "PolicyRule list"

record LocalObjectReference =
  lor_Name :: string

record SecretKeySelector =
  sks_LocalObjectReference :: LocalObjectReference
  sks_Key :: string

record EnvVarSource =
  evs_SecretKeyRef :: "SecretKeySelector option"

record EnvVar =
  ev_Name :: string
  ev_Value :: string
  ev_ValueFrom :: "EnvVarSource option"

record ContainerPort =
  cp_ContainerPort :: int

text \<open>
  \<^verbatim>\<open>resource.MustParse\<close> is applied to four literals only; a quantity is kept as the
  literal it was parsed from.
\<close>

record ResourceRequirements =
  rq_Limits :: "(string \<times> string) list"
  rq_Requests :: "(string \<times> string) list"

record VolumeMount =
  vm_MountPath :: string
  vm_Name :: string

datatype PullPolicy = PullUnset | PullAlways | PullNever | PullIfNotPresent

record Container =
  ct_Name :: string
  ct_ImagePullPolicy :: PullPolicy
  ct_Image :: string
  ct_Args :: "string list"
  ct_Env :: "EnvVar list"
  ct_Ports :: "ContainerPort list"
  ct_Resources :: ResourceRequirements
  ct_VolumeMounts :: "VolumeMount list"

datatype EmptyDirVolumeSource = EmptyDirVolumeSource

record VolumeSource =
  vs_EmptyDir :: "EmptyDirVolumeSource option"

record Volume =
  vol_VolumeSource :: VolumeSource
  vol_Name :: string

record PodSpec =
  ps_ServiceAccountName :: string
  ps_Containers :: "Container list"
  ps_Volumes :: "Volume list"

record PodTemplateSpec =
  pt_ObjectMeta :: ObjectMeta
  pt_Spec :: PodSpec

record LabelSelector =
  ls_MatchLabels :: "(string \<times> string) list"

record DeploymentSpec =
  ds_Replicas :: "int option"
  ds_Selector :: "LabelSelector option"
  ds_Template :: PodTemplateSpec

record DeploymentStatus =
  dst_Replicas :: int
  dst_ReadyReplicas :: int

record Deployment =
  dep_ObjectMeta :: ObjectMeta
  dep_Spec :: DeploymentSpec
  dep_Status :: DeploymentStatus

text \<open>The zero value \<^verbatim>\<open>appsv1.Deployment{}\<close> that line 332 returns with the error.\<close>

definition Deployment_zero :: Deployment where
  "Deployment_zero =
     \<lparr>dep_ObjectMeta = ObjectMeta_zero,
      dep_Spec = \<lparr>ds_Replicas = None, ds_Selector = None,
                  ds_Template = \<lparr>pt_ObjectMeta = ObjectMeta_zero,
                                  pt_Spec = \<lparr>ps_ServiceAccountName = [], ps_Containers = [],
                                             ps_Volumes = []\<rparr>\<rparr>\<rparr>,
      dep_Status = \<lparr>dst_Replicas = 0, dst_ReadyReplicas = 0\<rparr>\<rparr>"

text \<open>A \<^verbatim>\<open>client.Object\<close> is one of the five kinds that \<^verbatim>\<open>Sync\<close> puts in its list.\<close>

datatype Object =
    ObjService Service
  | ObjServiceAccount ServiceAccount
  | ObjClusterRole ClusterRole
  | ObjClusterRoleBinding ClusterRoleBinding
  | ObjDeployment Deployment

section \<open>Resource builders\<close>

definition DeploymentName :: string where
  "DeploymentName = ''k8sgpt-deployment''"

text \<open>
  Each builder writes the same owner reference literal (lines 53-60, 86-93, 109-116,
  144-151 and 184-191); \<^verbatim>\<open>utils.PtrBool(true)\<close> is a pointer to \<^verbatim>\<open>true\<close>.
\<close>

definition GetService :: "K8sGPT \<Rightarrow> Service \<times> error option" where
  "GetService config =
     (let service =
        \<lparr>svc_ObjectMeta =
           \<lparr>om_Name = ''k8sgpt'', om_Namespace = cfg_Namespace config,
            om_ResourceVersion = [], om_Labels = [],
            om_OwnerReferences =
              [\<lparr>or_APIVersion = cfg_APIVersion config, or_Kind = cfg_Kind config,
                or_Name = cfg_Name config, or_UID = cfg_UID config,
                or_Controller = Some True, or_BlockOwnerDeletion = Some True\<rparr>]\<rparr>,
         svc_Spec =
           \<lparr>ss_Selector = [(''app'', DeploymentName)],
            ss_Ports = [\<lparr>sp_Port = 8080\<rparr>],
            ss_ClusterIP = []\<rparr>,
         svc_Status = \<lparr>sst_LoadBalancerIngress = []\<rparr>\<rparr>
      in (service, None))"

definition GetServiceAccount :: "K8sGPT \<Rightarrow> ServiceAccount \<times> error option" where
  "GetServiceAccount config =
     (let serviceAccount =
        \<lparr>sa_ObjectMeta =
           \<lparr>om_Name = ''k8sgpt'', om_Namespace = cfg_Namespace config,
            om_ResourceVersion = [], om_Labels = [],
            om_OwnerReferences =
              [\<lparr>or_APIVersion = cfg_APIVersion config, or_Kind = cfg_Kind config,
                or_Name = cfg_Name config, or_UID = cfg_UID config,
                or_Controller = Some True, or_BlockOwnerDeletion = Some True\<rparr>]\<rparr>\<rparr>
      in (serviceAccount, None))"

definition GetClusterRoleBinding :: "K8sGPT \<Rightarrow> ClusterRoleBinding \<times> error option" where
  "GetClusterRoleBinding config =
     (let clusterRoleBinding =
        \<lparr>crb_ObjectMeta =
           \<lparr>om_Name = ''k8sgpt'', om_Namespace = [],
            om_ResourceVersion = [], om_Labels = [],
            om_OwnerReferences =
              [\<lparr>or_APIVersion = cfg_APIVersion config, or_Kind = cfg_Kind config,
                or_Name = cfg_Name config, or_UID = cfg_UID config,
                or_Controller = Some True, or_BlockOwnerDeletion = Some True\<rparr>]\<rparr>,
         crb_Subjects =
           [\<lparr>sub_Kind = ''ServiceAccount'', sub_Name = ''k8sgpt'',
             sub_Namespace = cfg_Namespace config\<rparr>],
         crb_RoleRef =
           \<lparr>rr_Kind = ''ClusterRole'', rr_Name = ''k8sgpt'',
            rr_APIGroup = ''rbac.authorization.k8s.io''\<rparr>\<rparr>
      in (clusterRoleBinding, None))"

definition GetClusterRole :: "K8sGPT \<Rightarrow> ClusterRole \<times> error option" where
  "GetClusterRole config =
     (let clusterRole =
        \<lparr>cro_ObjectMeta =
           \<lparr>om_Name = ''k8sgpt'', om_Namespace = [],
            om_ResourceVersion = [], om_Labels = [],
            om_OwnerReferences =
              [\<lparr>or_APIVersion = cfg_APIVersion config, or_Kind = cfg_Kind config,
                or_Name = cfg_Name config, or_UID = cfg_UID config,
                or_Controller = Some True, or_BlockOwnerDeletion = Some True\<rparr>]\<rparr>,
         cro_Rules =
           [\<lparr>pr_APIGroups = [''*''], pr_Resources = [''*''],
             pr_Verbs = [''create'', ''list'', ''get'', ''watch'', ''delete'']\<rparr>,
            \<lparr>pr_APIGroups = [''apiextensions.k8s.io''], pr_Resources = [''*''],
             pr_Verbs = [''*'']\<rparr>]\<rparr>
      in (clusterRole, None))"

text \<open>
  The append at lines 280, 299, 318 and 328:
  \<^verbatim>\<open>deployment.Spec.Template.Spec.Containers[0].Env = append(..., v)\<close>.
  Index 0 is in range wherever \<^verbatim>\<open>GetDeployment\<close> appends, since the literal of lines
  179-267 has one container (lemma \<open>deploymentLiteral_Containers\<close>); on an empty container
  list, where Go would panic, the model leaves the deployment as it is.
\<close>

definition appendEnv :: "Deployment \<Rightarrow> EnvVar \<Rightarrow> Deployment" where
  "appendEnv deployment v =
     (case ps_Containers (pt_Spec (ds_Template (dep_Spec deployment))) of
        [] \<Rightarrow> deployment
      | c # cs \<Rightarrow>
          deployment\<lparr>dep_Spec := (dep_Spec deployment)
            \<lparr>ds_Template := (ds_Template (dep_Spec deployment))
              \<lparr>pt_Spec := (pt_Spec (ds_Template (dep_Spec deployment)))
                \<lparr>ps_Containers := c\<lparr>ct_Env := ct_Env c @ [v]\<rparr> # cs\<rparr>\<rparr>\<rparr>\<rparr>)"

text \<open>The struct literal of lines 179-267.\<close>

definition deploymentLiteral :: "K8sGPT \<Rightarrow> string \<Rightarrow> int \<Rightarrow> Deployment" where
  "deploymentLiteral config img replicas =
     \<lparr>dep_ObjectMeta =
        \<lparr>om_Name = DeploymentName, om_Namespace = cfg_Namespace config,
         om_ResourceVersion = [], om_Labels = [],
         om_OwnerReferences =
           [\<lparr>or_APIVersion = cfg_APIVersion config, or_Kind = cfg_Kind config,
             or_Name = cfg_Name config, or_UID = cfg_UID config,
             or_Controller = Some True, or_BlockOwnerDeletion = Some True\<rparr>]\<rparr>,
      dep_Spec =
        \<lparr>ds_Replicas = Some replicas,
         ds_Selector = Some \<lparr>ls_MatchLabels = [(''app'', DeploymentName)]\<rparr>,
         ds_Template =
           \<lparr>pt_ObjectMeta = ObjectMeta_zero\<lparr>om_Labels := [(''app'', DeploymentName)]\<rparr>,
            pt_Spec =
              \<lparr>ps_ServiceAccountName = ''k8sgpt'',
               ps_Containers =
                 [\<lparr>ct_Name = ''k8sgpt'',
                   ct_ImagePullPolicy = PullAlways,
                   ct_Image = img,
                   ct_Args = [''serve''],
                   ct_Env =
                     [\<lparr>ev_Name = ''K8SGPT_MODEL'',
                       ev_Value = ai_Model (sp_AI (cfg_Spec config)), ev_ValueFrom = None\<rparr>,
                      \<lparr>ev_Name = ''K8SGPT_BACKEND'',
                       ev_Value = ai_Backend (sp_AI (cfg_Spec config)), ev_ValueFrom = None\<rparr>,
                      \<lparr>ev_Name = ''XDG_CONFIG_HOME'',
                       ev_Value = ''/k8sgpt-data/.config'', ev_ValueFrom = None\<rparr>,
                      \<lparr>ev_Name = ''XDG_CACHE_HOME'',
                       ev_Value = ''/k8sgpt-data/.cache'', ev_ValueFrom = None\<rparr>],
                   ct_Ports = [\<lparr>cp_ContainerPort = 8080\<rparr>],
                   ct_Resources =
                     \<lparr>rq_Limits = [(''cpu'', ''1''), (''memory'', ''512Mi'')],
                      rq_Requests = [(''cpu'', ''0.2''), (''memory'', ''156Mi'')]\<rparr>,
                   ct_VolumeMounts =
                     [\<lparr>vm_MountPath = ''/k8sgpt-data'', vm_Name = ''k8sgpt-vol''\<rparr>]\<rparr>],
               ps_Volumes =
                 [\<lparr>vol_VolumeSource = \<lparr>vs_EmptyDir = Some EmptyDirVolumeSource\<rparr>,
                   vol_Name = ''k8sgpt-vol''\<rparr>]\<rparr>\<rparr>\<rparr>,
      dep_Status = \<lparr>dst_Replicas = 0, dst_ReadyReplicas = 0\<rparr>\<rparr>"

text \<open>The closure \<^verbatim>\<open>addRemoteCacheEnvVar\<close> of lines 287-302; it captures the configuration's
  remote-cache block and the deployment it appends to.\<close>

definition addRemoteCacheEnvVar :: "RemoteCacheRef \<Rightarrow> Deployment \<Rightarrow> string \<Rightarrow> string \<Rightarrow> Deployment" where
  "addRemoteCacheEnvVar remoteCache deployment name key =
     (let envVar =
        \<lparr>ev_Name = name, ev_Value = [],
         ev_ValueFrom = Some \<lparr>evs_SecretKeyRef = Some
           \<lparr>sks_LocalObjectReference = \<lparr>lor_Name = cr_Name (rc_Credentials remoteCache)\<rparr>,
            sks_Key = key\<rparr>\<rparr>\<rparr>
      in appendEnv deployment envVar)"

definition GetDeployment :: "K8sGPT \<Rightarrow> Deployment \<times> error option" where
  "GetDeployment config =
     (let img = sp_Repository (cfg_Spec config) @ '':'' @ sp_Version (cfg_Spec config);
          replicas = 1;
          deployment = deploymentLiteral config img replicas;
          deployment =
            (case ai_Secret (sp_AI (cfg_Spec config)) of
               None \<Rightarrow> deployment
             | Some secret \<Rightarrow>
                 (let password =
                    \<lparr>ev_Name = ''K8SGPT_PASSWORD'', ev_Value = [],
                     ev_ValueFrom = Some \<lparr>evs_SecretKeyRef = Some
                       \<lparr>sks_LocalObjectReference = \<lparr>lor_Name = sr_Name secret\<rparr>,
                        sks_Key = sr_Key secret\<rparr>\<rparr>\<rparr>
                  in appendEnv deployment password));
          deployment =
            (case sp_RemoteCache (cfg_Spec config) of
               None \<Rightarrow> deployment
             | Some remoteCache \<Rightarrow>
                 (if rc_Azure remoteCache \<noteq> None then
                    (let deployment = addRemoteCacheEnvVar remoteCache deployment
                                        ''AZURE_CLIENT_ID'' ''azure_client_id'';
                         deployment = addRemoteCacheEnvVar remoteCache deployment
                                        ''AZURE_TENANT_ID'' ''azure_tenant_id''
                     in addRemoteCacheEnvVar remoteCache deployment
                          ''AZURE_CLIENT_SECRET'' ''azure_client_secret'')
                  else if rc_S3 remoteCache \<noteq> None then
                    (let deployment = addRemoteCacheEnvVar remoteCache deployment
                                        ''AWS_ACCESS_KEY_ID'' ''aws_access_key_id''
                     in addRemoteCacheEnvVar remoteCache deployment
                          ''AWS_SECRET_ACCESS_KEY'' ''aws_secret_access_key'')
                  else deployment));
          deployment =
            (if ai_BaseUrl (sp_AI (cfg_Spec config)) \<noteq> [] then
               (let baseUrl =
                  \<lparr>ev_Name = ''K8SGPT_BASEURL'',
                   ev_Value = ai_BaseUrl (sp_AI (cfg_Spec config)), ev_ValueFrom = None\<rparr>
                in appendEnv deployment baseUrl)
             else deployment)
      in if ai_Engine (sp_AI (cfg_Spec config)) \<noteq> []
            \<and> ai_Backend (sp_AI (cfg_Spec config)) = AzureOpenAI then
           (let engine =
              \<lparr>ev_Name = ''K8SGPT_ENGINE'',
               ev_Value = ai_Engine (sp_AI (cfg_Spec config)), ev_ValueFrom = None\<rparr>
            in (appendEnv deployment engine, None))
         else if ai_Engine (sp_AI (cfg_Spec config)) \<noteq> []
            \<and> ai_Backend (sp_AI (cfg_Spec config)) \<noteq> AzureOpenAI then
           (Deployment_zero, Some (ErrorNew ''Engine is supported only by azureopenai provider.''))
         else (deployment, None))"

text \<open>The environment of the deployment's first container.\<close>

definition containerEnv :: "Deployment \<Rightarrow> EnvVar list" where
  "containerEnv deployment =
     (case ps_Containers (pt_Spec (ds_Template (dep_Spec deployment))) of
        [] \<Rightarrow> []
      | c # cs \<Rightarrow> ct_Env c)"

section \<open>The cluster client\<close>

text \<open>
  \<^verbatim>\<open>context.Context\<close>: the background context, or a context made by the caller.
\<close>

datatype Context = Background | WithCancel nat

text \<open>\<^verbatim>\<open>types.NamespacedName\<close>, also called \<^verbatim>\<open>client.ObjectKey\<close>.\<close>

record ObjectKey =
  key_Namespace :: string
  key_Name :: string

record Secret =
  sec_ObjectMeta :: ObjectMeta
  sec_Data :: "(string \<times> string) list"

fun GetObjectMeta :: "Object \<Rightarrow> ObjectMeta" where
  "GetObjectMeta (ObjService x) = svc_ObjectMeta x"
| "GetObjectMeta (ObjServiceAccount x) = sa_ObjectMeta x"
| "GetObjectMeta (ObjClusterRole x) = cro_ObjectMeta x"
| "GetObjectMeta (ObjClusterRoleBinding x) = crb_ObjectMeta x"
| "GetObjectMeta (ObjDeployment x) = dep_ObjectMeta x"

definition ObjectKeyFromObject :: "Object \<Rightarrow> ObjectKey" where
  "ObjectKeyFromObject obj =
     \<lparr>key_Namespace = om_Namespace (GetObjectMeta obj), key_Name = om_Name (GetObjectMeta obj)\<rparr>"

text \<open>
  A \<^verbatim>\<open>controllerutil.MutateFn\<close> is a closure \<^verbatim>\<open>func() error\<close>. The two closures that
  \<^verbatim>\<open>doSync\<close> builds (lines 423-426 and 435-438) write to the object \<^verbatim>\<open>exist\<close> that is also
  handed to \<^verbatim>\<open>CreateOrPatch\<close>, so a closure is a function from the contents of that object
  to its new contents and the returned error.
\<close>

datatype MutateFn =
    DeploymentMutateFn "Deployment \<Rightarrow> Deployment \<times> error option"
  | ServiceMutateFn "Service \<Rightarrow> Service \<times> error option"

text \<open>
  \<^verbatim>\<open>client.Client\<close> is an interface, and the cluster behind it changes under other
  actors. The client is a record of operations on a state \<open>'w\<close> of which nothing is
  known; every operation returns its result and the next state. \<^verbatim>\<open>Get\<close> fills an object
  of the kind it is given, so it is one operation per kind that the package reads.
  \<^verbatim>\<open>controllerutil.CreateOrPatch(ctx, clt, obj, mutateFn)\<close> belongs to the
  controller-runtime library; it is kept as one more operation of the environment that
  receives exactly the arguments of the call.
\<close>

record 'w Client =
  cl_GetSecret :: "Context \<Rightarrow> ObjectKey \<Rightarrow> 'w \<Rightarrow> (error + Secret) \<times> 'w"
  cl_GetDeployment :: "Context \<Rightarrow> ObjectKey \<Rightarrow> 'w \<Rightarrow> (error + Deployment) \<times> 'w"
  cl_GetService :: "Context \<Rightarrow> ObjectKey \<Rightarrow> 'w \<Rightarrow> (error + Service) \<times> 'w"
  cl_Delete :: "Context \<Rightarrow> Object \<Rightarrow> 'w \<Rightarrow> error option \<times> 'w"
  cl_CreateOrPatch :: "Context \<Rightarrow> Object \<Rightarrow> MutateFn option \<Rightarrow> 'w \<Rightarrow> error option \<times> 'w"

text \<open>
  What the package did to the cluster is read from a trace: every call made through the
  client is recorded with its arguments and the error it returned.
\<close>

datatype Kind = SecretKind | DeploymentKind | ServiceKind

datatype Event =
    GetEvent Context Kind ObjectKey "error option"
  | DeleteEvent Context Object "error option"
  | CreateOrPatchEvent Context Object "MutateFn option" "error option"

record 'w State =
  world :: 'w
  trace :: "Event list"

fun errorOf :: "error + 'a \<Rightarrow> error option" where
  "errorOf (Inl e) = Some e"
| "errorOf (Inr _) = None"

definition clientGetSecret ::
  "'w Client \<Rightarrow> Context \<Rightarrow> ObjectKey \<Rightarrow> 'w State \<Rightarrow> (error + Secret) \<times> 'w State" where
  "clientGetSecret c ctx key s =
     (case cl_GetSecret c ctx key (world s) of
        (r, w) \<Rightarrow> (r, \<lparr>world = w, trace = trace s @ [GetEvent ctx SecretKind key (errorOf r)]\<rparr>))"

definition clientGetDeployment ::
  "'w Client \<Rightarrow> Context \<Rightarrow> ObjectKey \<Rightarrow> 'w State \<Rightarrow> (error + Deployment) \<times> 'w State" where
  "clientGetDeployment c ctx key s =
     (case cl_GetDeployment c ctx key (world s) of
        (r, w) \<Rightarrow> (r, \<lparr>world = w, trace = trace s @ [GetEvent ctx DeploymentKind key (errorOf r)]\<rparr>))"

definition clientGetService ::
  "'w Client \<Rightarrow> Context \<Rightarrow> ObjectKey \<Rightarrow> 'w State \<Rightarrow> (error + Service) \<times> 'w State" where
  "clientGetService c ctx key s =
     (case cl_GetService c ctx key (world s) of
        (r, w) \<Rightarrow> (r, \<lparr>world = w, trace = trace s @ [GetEvent ctx ServiceKind key (errorOf r)]\<rparr>))"

definition clientDelete ::
  "'w Client \<Rightarrow> Context \<Rightarrow> Object \<Rightarrow> 'w State \<Rightarrow> error option \<times> 'w State" where
  "clientDelete c ctx obj s =
     (case cl_Delete c ctx obj (world s) of
        (r, w) \<Rightarrow> (r, \<lparr>world = w, trace = trace s @ [DeleteEvent ctx obj r]\<rparr>))"

definition CreateOrPatch ::
  "'w Client \<Rightarrow> Context \<Rightarrow> Object \<Rightarrow> MutateFn option \<Rightarrow> 'w State \<Rightarrow> error option \<times> 'w State" where
  "CreateOrPatch c ctx obj mutateFn s =
     (case cl_CreateOrPatch c ctx obj mutateFn (world s) of
        (r, w) \<Rightarrow> (r, \<lparr>world = w, trace = trace s @ [CreateOrPatchEvent ctx obj mutateFn r]\<rparr>))"

section \<open>Retry on conflict\<close>

text \<open>
  \<^verbatim>\<open>retry.RetryOnConflict\<close> and \<^verbatim>\<open>retry.DefaultRetry\<close> belong to the client-go library and
  are not part of the source file; \<^verbatim>\<open>doSync\<close> only calls them (line 442). A backoff policy
  is kept as its number of attempts; the waiting time between two attempts is not
  modelled.
\<close>

record Backoff =
  Steps :: nat

text \<open>
  Modelled from the spec: \<^verbatim>\<open>retry.DefaultRetry\<close> is missing from the source. The spec calls
  it a default backoff policy with a bounded retry budget under which a conflict gets at
  least one retry; the default policy of client-go allows five attempts.
\<close>

definition DefaultRetry :: Backoff where
  "DefaultRetry = \<lparr>Steps = 5\<rparr>"

text \<open>
  Modelled from the spec: the loop inside \<^verbatim>\<open>retry.RetryOnConflict\<close>, which is missing from
  the source. The spec describes a bounded retry loop that retries only on
  optimistic-concurrency conflict errors: success ends it and hides the conflicts before
  it, any other error propagates without retry, and exhausting the budget surfaces the
  last conflict error (\<open>lastErr\<close>).
\<close>

fun retryLoop ::
  "nat \<Rightarrow> error option \<Rightarrow> ('s \<Rightarrow> error option \<times> 's) \<Rightarrow> 's \<Rightarrow> error option \<times> 's" where
  "retryLoop 0 lastErr fn s = (lastErr, s)"
| "retryLoop (Suc n) lastErr fn s =
     (case fn s of
        (None, s') \<Rightarrow> (None, s')
      | (Some err, s') \<Rightarrow>
          if IsConflict err then retryLoop n (Some err) fn s' else (Some err, s'))"

text \<open>
  Modelled from the spec: \<^verbatim>\<open>retry.RetryOnConflict(backoff, fn)\<close>, which is missing from the
  source: the retry loop above with the budget of the given backoff policy.
\<close>

definition RetryOnConflict ::
  "Backoff \<Rightarrow> ('s \<Rightarrow> error option \<times> 's) \<Rightarrow> 's \<Rightarrow> error option \<times> 's" where
  "RetryOnConflict backoff fn s = retryLoop (Steps backoff) None fn s"

section \<open>Reconciling one object: \<^verbatim>\<open>doSync\<close>\<close>

text \<open>
  The type switch of lines 415-441. It ends either in an early return of the fetch error
  (\<open>Inl\<close>) or with the values of the variables \<^verbatim>\<open>obj\<close> and \<^verbatim>\<open>mutateFn\<close> (\<open>Inr\<close>), where
  \<open>None\<close> is the nil function. Both fetches are issued with \<^verbatim>\<open>context.Background()\<close>
  (lines 419 and 431).
\<close>

definition doSync_switch ::
  "'w Client \<Rightarrow> Object \<Rightarrow> 'w State \<Rightarrow> (error + Object \<times> MutateFn option) \<times> 'w State" where
  "doSync_switch clt obj s =
     (case obj of
        ObjDeployment expect \<Rightarrow>
          (case clientGetDeployment clt Background (ObjectKeyFromObject obj) s of
             (Inl err, s') \<Rightarrow>
               if \<not> IsNotFound err then (Inl err, s') else (Inr (obj, None), s')
           | (Inr exist, s') \<Rightarrow>
               (Inr (ObjDeployment exist,
                     Some (DeploymentMutateFn
                             (\<lambda>exist. (exist\<lparr>dep_Spec := dep_Spec expect\<rparr>, None)))), s'))
      | ObjService expect \<Rightarrow>
          (case clientGetService clt Background (ObjectKeyFromObject obj) s of
             (Inl err, s') \<Rightarrow>
               if \<not> IsNotFound err then (Inl err, s') else (Inr (obj, None), s')
           | (Inr exist, s') \<Rightarrow>
               (Inr (ObjService exist,
                     Some (ServiceMutateFn
                             (\<lambda>exist. (exist\<lparr>svc_Spec := svc_Spec expect\<rparr>, None)))), s'))
      | _ \<Rightarrow> (Inr (obj, None), s))"

definition doSync :: "'w Client \<Rightarrow> Context \<Rightarrow> Object \<Rightarrow> 'w State \<Rightarrow> error option \<times> 'w State" where
  "doSync clt ctx obj s =
     (case doSync_switch clt obj s of
        (Inl err, s') \<Rightarrow> (Some err, s')
      | (Inr (obj', mutateFn), s') \<Rightarrow>
          RetryOnConflict DefaultRetry (CreateOrPatch clt ctx obj' mutateFn) s')"

section \<open>The orchestrator: \<^verbatim>\<open>Sync\<close>\<close>

text \<open>
  \<^verbatim>\<open>type SyncOrDestroy int\<close> with the constants \<^verbatim>\<open>SyncOp = iota\<close> and \<^verbatim>\<open>DestroyOp\<close>; the
  switch of line 379 has no default case, so any other value does nothing.
\<close>

type_synonym SyncOrDestroy = int

definition SyncOp :: SyncOrDestroy where
  "SyncOp = 0"

definition DestroyOp :: SyncOrDestroy where
  "DestroyOp = 1"

text \<open>Lines 340-375: the five builders in order, returning at the first builder error.\<close>

definition buildObjects :: "K8sGPT \<Rightarrow> error + Object list" where
  "buildObjects config =
     (let objs = [] in
      case GetService config of
        (svc, Some er) \<Rightarrow> Inl er
      | (svc, None) \<Rightarrow>
     (let objs = objs @ [ObjService svc] in
      case GetServiceAccount config of
        (svcAcc, Some er) \<Rightarrow> Inl er
      | (svcAcc, None) \<Rightarrow>
     (let objs = objs @ [ObjServiceAccount svcAcc] in
      case GetClusterRole config of
        (clusterRole, Some er) \<Rightarrow> Inl er
      | (clusterRole, None) \<Rightarrow>
     (let objs = objs @ [ObjClusterRole clusterRole] in
      case GetClusterRoleBinding config of
        (clusterRoleBinding, Some er) \<Rightarrow> Inl er
      | (clusterRoleBinding, None) \<Rightarrow>
     (let objs = objs @ [ObjClusterRoleBinding clusterRoleBinding] in
      case GetDeployment config of
        (deployment, Some er) \<Rightarrow> Inl er
      | (deployment, None) \<Rightarrow>
     (let objs = objs @ [ObjDeployment deployment] in Inr objs))))))"

text \<open>
  Lines 382-391, at the head of the \<^verbatim>\<open>SyncOp\<close> case: the check that a referenced secret
  exists. \<open>Some e\<close> is \<^verbatim>\<open>return e\<close>; the error of the fetch itself is dropped.
\<close>

definition checkSecret ::
  "'w Client \<Rightarrow> Context \<Rightarrow> K8sGPT \<Rightarrow> 'w State \<Rightarrow> error option \<times> 'w State" where
  "checkSecret c ctx config s =
     (case ai_Secret (sp_AI (cfg_Spec config)) of
        None \<Rightarrow> (None, s)
      | Some secretRef \<Rightarrow>
          (case clientGetSecret c ctx
                  \<lparr>key_Namespace = cfg_Namespace config, key_Name = sr_Name secretRef\<rparr> s of
             (Inl er, s') \<Rightarrow>
               (Some (ErrorNew ''references secret does not exist, cannot create deployment''), s')
           | (Inr secret, s') \<Rightarrow> (None, s')))"

text \<open>
  The body of the loop of lines 378-409 for one object: \<open>Some e\<close> is \<^verbatim>\<open>return e\<close>, \<open>None\<close>
  goes on to the next object.
\<close>

definition syncObject ::
  "'w Client \<Rightarrow> Context \<Rightarrow> K8sGPT \<Rightarrow> SyncOrDestroy \<Rightarrow> Object \<Rightarrow> 'w State
     \<Rightarrow> error option \<times> 'w State" where
  "syncObject c ctx config i obj s =
     (if i = SyncOp then
        (case checkSecret c ctx config s of
           (Some e, s') \<Rightarrow> (Some e, s')
         | (None, s') \<Rightarrow>
             (case doSync c ctx obj s' of
                (Some err, s'') \<Rightarrow>
                  if \<not> IsAlreadyExists err then (Some err, s'') else (None, s'')
              | (None, s'') \<Rightarrow> (None, s'')))
      else if i = DestroyOp then
        (case clientDelete c ctx obj s of
           (Some err, s') \<Rightarrow> if \<not> IsNotFound err then (Some err, s') else (None, s')
         | (None, s') \<Rightarrow> (None, s'))
      else (None, s))"

fun syncObjects ::
  "'w Client \<Rightarrow> Context \<Rightarrow> K8sGPT \<Rightarrow> SyncOrDestroy \<Rightarrow> Object list \<Rightarrow> 'w State
     \<Rightarrow> error option \<times> 'w State" where
  "syncObjects c ctx config i [] s = (None, s)"
| "syncObjects c ctx config i (obj # objs) s =
     (case syncObject c ctx config i obj s of
        (Some e, s') \<Rightarrow> (Some e, s')
      | (None, s') \<Rightarrow> syncObjects c ctx config i objs s')"

definition Sync ::
  "'w Client \<Rightarrow> Context \<Rightarrow> K8sGPT \<Rightarrow> SyncOrDestroy \<Rightarrow> 'w State \<Rightarrow> error option \<times> 'w State" where
  "Sync c ctx config i s =
     (case buildObjects config of
        Inl er \<Rightarrow> (Some er, s)
      | Inr objs \<Rightarrow> syncObjects c ctx config i objs s)"

section \<open>Vocabulary of the properties\<close>

text \<open>The container list that the appends of \<^verbatim>\<open>GetDeployment\<close> index.\<close>

abbreviation containers :: "Deployment \<Rightarrow> Container list" where
  "containers d \<equiv> ps_Containers (pt_Spec (ds_Template (dep_Spec d)))"

text \<open>The remote-cache credential variables of a deployment: the entries of the container's
  environment that carry one of the five Azure or AWS names, in order.\<close>

definition credentialVars :: "Deployment \<Rightarrow> EnvVar list" where
  "credentialVars deployment =
     filter (\<lambda>v. ev_Name v \<in> {''AZURE_CLIENT_ID'', ''AZURE_TENANT_ID'', ''AZURE_CLIENT_SECRET'',
                                ''AWS_ACCESS_KEY_ID'', ''AWS_SECRET_ACCESS_KEY''})
       (containerEnv deployment)"

text \<open>An environment variable whose value is read from a key of a secret.\<close>

definition secretEnvVar :: "string \<Rightarrow> string \<Rightarrow> string \<Rightarrow> EnvVar" where
  "secretEnvVar name secretName key =
     \<lparr>ev_Name = name, ev_Value = [],
      ev_ValueFrom = Some \<lparr>evs_SecretKeyRef = Some
        \<lparr>sks_LocalObjectReference = \<lparr>lor_Name = secretName\<rparr>, sks_Key = key\<rparr>\<rparr>\<rparr>"

text \<open>The owner reference that points to a configuration as the controller.\<close>

definition ownerReferenceOf :: "K8sGPT \<Rightarrow> OwnerReference" where
  "ownerReferenceOf config =
     \<lparr>or_APIVersion = cfg_APIVersion config, or_Kind = cfg_Kind config,
      or_Name = cfg_Name config, or_UID = cfg_UID config,
      or_Controller = Some True, or_BlockOwnerDeletion = Some True\<rparr>"

text \<open>Concrete configurations, for the closed instances of the theorems.\<close>

definition exampleConfig :: "AISpec \<Rightarrow> RemoteCacheRef option \<Rightarrow> K8sGPT" where
  "exampleConfig ai remoteCache =
     \<lparr>cfg_Kind = ''K8sGPT'', cfg_APIVersion = ''core.k8sgpt.ai/v1alpha1'',
      cfg_Name = ''k8sgpt-sample'', cfg_Namespace = ''default'', cfg_UID = ''uid-1'',
      cfg_Spec = \<lparr>sp_Repository = ''ghcr.io/k8sgpt-ai/k8sgpt'', sp_Version = ''v0.3.8'',
                  sp_AI = ai, sp_RemoteCache = remoteCache\<rparr>\<rparr>"

definition exampleAI :: "string \<Rightarrow> string \<Rightarrow> SecretRef option \<Rightarrow> AISpec" where
  "exampleAI backend engine secret =
     \<lparr>ai_Backend = backend, ai_BaseUrl = [], ai_Model = ''gpt-3.5-turbo'',
      ai_Engine = engine, ai_Secret = secret\<rparr>"

definition exampleRemoteCache :: "S3Backend option \<Rightarrow> AzureBackend option \<Rightarrow> RemoteCacheRef" where
  "exampleRemoteCache s3 azure =
     \<lparr>rc_Credentials = \<lparr>cr_Name = ''cache-credentials''\<rparr>, rc_S3 = s3, rc_Azure = azure\<rparr>"

text \<open>Reading the trace: the kind of a call, its context, and whether an attempt returned a
  conflict.\<close>

fun isCreateOrPatch :: "Event \<Rightarrow> bool" where
  "isCreateOrPatch (CreateOrPatchEvent ctx obj mutateFn r) = True"
| "isCreateOrPatch _ = False"

fun isDelete :: "Event \<Rightarrow> bool" where
  "isDelete (DeleteEvent ctx obj r) = True"
| "isDelete _ = False"

fun isSecretFetch :: "Event \<Rightarrow> bool" where
  "isSecretFetch (GetEvent ctx SecretKind key r) = True"
| "isSecretFetch _ = False"

fun eventContext :: "Event \<Rightarrow> Context" where
  "eventContext (GetEvent ctx kind key r) = ctx"
| "eventContext (DeleteEvent ctx obj r) = ctx"
| "eventContext (CreateOrPatchEvent ctx obj mutateFn r) = ctx"

fun isConflictResult :: "error option \<Rightarrow> bool" where
  "isConflictResult (Some e) = IsConflict e"
| "isConflictResult None = False"

text \<open>
  The answers of the client itself: \<open>clientAnswers c ctx obj m w rs w'\<close> says that
  consecutive calls of \<^verbatim>\<open>CreateOrPatch\<close> with these arguments, the first in the state \<open>w\<close>
  and each next one in the state that the call before it left, are answered by \<open>rs\<close> in
  this order and leave the state \<open>w'\<close>.
\<close>

fun clientAnswers ::
  "'w Client \<Rightarrow> Context \<Rightarrow> Object \<Rightarrow> MutateFn option \<Rightarrow> 'w \<Rightarrow> error option list \<Rightarrow> 'w
     \<Rightarrow> bool" where
  "clientAnswers c ctx obj m w [] w' = (w' = w)"
| "clientAnswers c ctx obj m w (r # rs) w' =
     (fst (cl_CreateOrPatch c ctx obj m w) = r
      \<and> clientAnswers c ctx obj m (snd (cl_CreateOrPatch c ctx obj m w)) rs w')"

text \<open>
  A concrete client, for the closed instances: the fetch of the secret fails with the
  given error or succeeds, the fetch of the deployment finds the given object or reports
  not-found, the service is never found, every delete returns the given result, and the
  \<open>n\<close>-th call of \<^verbatim>\<open>CreateOrPatch\<close> returns \<open>script n\<close>; the state counts these calls.
\<close>

definition exampleClient ::
  "error option \<Rightarrow> Deployment option \<Rightarrow> error option \<Rightarrow> (nat \<Rightarrow> error option) \<Rightarrow> nat Client" where
  "exampleClient secretErr existing deleteErr script =
     \<lparr>cl_GetSecret = (\<lambda>ctx key w.
        (case secretErr of
           Some e \<Rightarrow> Inl e
         | None \<Rightarrow> Inr \<lparr>sec_ObjectMeta = ObjectMeta_zero, sec_Data = []\<rparr>, w)),
      cl_GetDeployment = (\<lambda>ctx key w.
        (case existing of
           None \<Rightarrow> Inl (StatusError NotFound ''deployment not found'')
         | Some d \<Rightarrow> Inr d, w)),
      cl_GetService = (\<lambda>ctx key w. (Inl (StatusError NotFound ''service not found''), w)),
      cl_Delete = (\<lambda>ctx obj w. (deleteErr, w)),
      cl_CreateOrPatch = (\<lambda>ctx obj mutateFn w. (script w, Suc w))\<rparr>"

definition initialState :: "nat State" where
  "initialState = \<lparr>world = 0, trace = []\<rparr>"

definition existingDeployment :: Deployment where
  "existingDeployment =
     \<lparr>dep_ObjectMeta = \<lparr>om_Name = ''k8sgpt-deployment'', om_Namespace = ''default'',
                        om_ResourceVersion = ''42'', om_Labels = [(''team'', ''sre'')],
                        om_OwnerReferences = []\<rparr>,
      dep_Spec = dep_Spec Deployment_zero,
      dep_Status = \<lparr>dst_Replicas = 1, dst_ReadyReplicas = 1\<rparr>\<rparr>"

definition conflictOnce :: "nat \<Rightarrow> error option" where
  "conflictOnce n = (if n = 0 then Some (StatusError Conflict ''the object has been modified'') else None)"

text \<open>The number of fetches of a secret in a trace, and the list of objects that \<^verbatim>\<open>Sync\<close>
  builds when no builder fails.\<close>

definition secretFetches :: "Event list \<Rightarrow> nat" where
  "secretFetches evs = length (filter isSecretFetch evs)"

abbreviation builtObjects :: "K8sGPT \<Rightarrow> Object list" where
  "builtObjects config \<equiv>
     [ObjService (fst (GetService config)),
      ObjServiceAccount (fst (GetServiceAccount config)),
      ObjClusterRole (fst (GetClusterRole config)),
      ObjClusterRoleBinding (fst (GetClusterRoleBinding config)),
      ObjDeployment (fst (GetDeployment config))]"

text \<open>A configuration that references a secret, and a script for the concrete client.\<close>

definition secretConfig :: K8sGPT where
  "secretConfig =
     exampleConfig
       (exampleAI ''openai'' [] (Some \<lparr>sr_Name = ''k8sgpt-secret'', sr_Key = ''openai-api-key''\<rparr>))
       None"

definition alreadyExistsOnce :: "nat \<Rightarrow> error option" where
  "alreadyExistsOnce n =
     (if n = 0 then Some (StatusError AlreadyExists ''services k8sgpt already exists'') else None)"

section \<open>The builders\<close>

lemma deploymentLiteral_Containers: "length (containers (deploymentLiteral config img replicas)) = 1"
  by (simp add: deploymentLiteral_def)

lemma containers_appendEnv: "containers d \<noteq> [] \<Longrightarrow> containers (appendEnv d v) \<noteq> []"
  by (simp add: appendEnv_def split: list.splits)

lemma containerEnv_appendEnv:
  "containers d \<noteq> [] \<Longrightarrow> containerEnv (appendEnv d v) = containerEnv d @ [v]"
  by (simp add: appendEnv_def containerEnv_def split: list.splits)

lemma ObjectMeta_appendEnv: "dep_ObjectMeta (appendEnv d v) = dep_ObjectMeta d"
  by (simp add: appendEnv_def split: list.splits)

lemma containers_addRemoteCacheEnvVar:
  "containers d \<noteq> [] \<Longrightarrow> containers (addRemoteCacheEnvVar rc d name key) \<noteq> []"
  by (simp add: addRemoteCacheEnvVar_def containers_appendEnv)

lemma ObjectMeta_addRemoteCacheEnvVar:
  "dep_ObjectMeta (addRemoteCacheEnvVar rc d name key) = dep_ObjectMeta d"
  by (simp add: addRemoteCacheEnvVar_def ObjectMeta_appendEnv)

lemma containerEnv_addRemoteCacheEnvVar:
  "containers d \<noteq> [] \<Longrightarrow>
   containerEnv (addRemoteCacheEnvVar rc d name key) =
     containerEnv d @
       [\<lparr>ev_Name = name, ev_Value = [],
         ev_ValueFrom = Some \<lparr>evs_SecretKeyRef = Some
           \<lparr>sks_LocalObjectReference = \<lparr>lor_Name = cr_Name (rc_Credentials rc)\<rparr>,
            sks_Key = key\<rparr>\<rparr>\<rparr>]"
  by (simp add: addRemoteCacheEnvVar_def containerEnv_appendEnv)

lemma containerEnv_deploymentLiteral:
  "containerEnv (deploymentLiteral config img replicas) =
     [\<lparr>ev_Name = ''K8SGPT_MODEL'',
       ev_Value = ai_Model (sp_AI (cfg_Spec config)), ev_ValueFrom = None\<rparr>,
      \<lparr>ev_Name = ''K8SGPT_BACKEND'',
       ev_Value = ai_Backend (sp_AI (cfg_Spec config)), ev_ValueFrom = None\<rparr>,
      \<lparr>ev_Name = ''XDG_CONFIG_HOME'',
       ev_Value = ''/k8sgpt-data/.config'', ev_ValueFrom = None\<rparr>,
      \<lparr>ev_Name = ''XDG_CACHE_HOME'',
       ev_Value = ''/k8sgpt-data/.cache'', ev_ValueFrom = None\<rparr>]"
  by (simp add: deploymentLiteral_def containerEnv_def)

lemma ObjectMeta_deploymentLiteral:
  "om_OwnerReferences (dep_ObjectMeta (deploymentLiteral config img replicas)) =
     [\<lparr>or_APIVersion = cfg_APIVersion config, or_Kind = cfg_Kind config,
             or_Name = cfg_Name config, or_UID = cfg_UID config,
             or_Controller = Some True, or_BlockOwnerDeletion = Some True\<rparr>]"
  by (simp add: deploymentLiteral_def)

lemmas dep_simps = containers_appendEnv containerEnv_appendEnv ObjectMeta_appendEnv
  containers_addRemoteCacheEnvVar ObjectMeta_addRemoteCacheEnvVar containerEnv_addRemoteCacheEnvVar

lemma containers_lit: "containers (deploymentLiteral config img replicas) \<noteq> []"
  using deploymentLiteral_Containers[of config img replicas] by auto

lemma GetDeployment_error:
  "snd (GetDeployment config) =
     (if ai_Engine (sp_AI (cfg_Spec config)) \<noteq> [] \<and> ai_Backend (sp_AI (cfg_Spec config)) \<noteq> AzureOpenAI
      then Some (ErrorNew ''Engine is supported only by azureopenai provider.'') else None)"
  by (simp add: GetDeployment_def Let_def)

lemma GetDeployment_ownerRefs:
  assumes "snd (GetDeployment config) = None"
  shows "om_OwnerReferences (dep_ObjectMeta (fst (GetDeployment config))) =
     [\<lparr>or_APIVersion = cfg_APIVersion config, or_Kind = cfg_Kind config,
             or_Name = cfg_Name config, or_UID = cfg_UID config,
             or_Controller = Some True, or_BlockOwnerDeletion = Some True\<rparr>]"
proof -
  from assms have ok: "ai_Engine (sp_AI (cfg_Spec config)) = [] \<or> ai_Backend (sp_AI (cfg_Spec config)) = AzureOpenAI"
    by (simp add: GetDeployment_error split: if_splits)
  then show ?thesis
    by (auto simp add: GetDeployment_def Let_def dep_simps ObjectMeta_deploymentLiteral split: option.splits)
qed

lemma GetDeployment_env:
  assumes "snd (GetDeployment config) = None"
  shows "containerEnv (fst (GetDeployment config)) =
     containerEnv (deploymentLiteral config
        (sp_Repository (cfg_Spec config) @ '':'' @ sp_Version (cfg_Spec config)) 1)
     @ (case ai_Secret (sp_AI (cfg_Spec config)) of
          None \<Rightarrow> []
        | Some secret \<Rightarrow> [secretEnvVar ''K8SGPT_PASSWORD'' (sr_Name secret) (sr_Key secret)])
     @ (case sp_RemoteCache (cfg_Spec config) of
          None \<Rightarrow> []
        | Some rc \<Rightarrow>
            if rc_Azure rc \<noteq> None then
              [secretEnvVar ''AZURE_CLIENT_ID'' (cr_Name (rc_Credentials rc)) ''azure_client_id'',
               secretEnvVar ''AZURE_TENANT_ID'' (cr_Name (rc_Credentials rc)) ''azure_tenant_id'',
               secretEnvVar ''AZURE_CLIENT_SECRET'' (cr_Name (rc_Credentials rc)) ''azure_client_secret'']
            else if rc_S3 rc \<noteq> None then
              [secretEnvVar ''AWS_ACCESS_KEY_ID'' (cr_Name (rc_Credentials rc)) ''aws_access_key_id'',
               secretEnvVar ''AWS_SECRET_ACCESS_KEY'' (cr_Name (rc_Credentials rc)) ''aws_secret_access_key'']
            else [])
     @ (if ai_BaseUrl (sp_AI (cfg_Spec config)) \<noteq> [] then
          [\<lparr>ev_Name = ''K8SGPT_BASEURL'', ev_Value = ai_BaseUrl (sp_AI (cfg_Spec config)),
            ev_ValueFrom = None\<rparr>]
        else [])
     @ (if ai_Engine (sp_AI (cfg_Spec config)) \<noteq> [] then
          [\<lparr>ev_Name = ''K8SGPT_ENGINE'', ev_Value = ai_Engine (sp_AI (cfg_Spec config)),
            ev_ValueFrom = None\<rparr>]
        else [])"
proof -
  from assms have ok: "ai_Engine (sp_AI (cfg_Spec config)) = [] \<or> ai_Backend (sp_AI (cfg_Spec config)) = AzureOpenAI"
    by (simp add: GetDeployment_error split: if_splits)
  then show ?thesis
    by (auto simp add: GetDeployment_def Let_def dep_simps containers_lit secretEnvVar_def split: option.splits)
qed

lemmas example_defs = exampleConfig_def exampleAI_def exampleRemoteCache_def

text \<open>
  Claim C1. For every configuration with a non-empty engine: if the backend is the
  AzureOpenAI value, \<^verbatim>\<open>GetDeployment\<close> returns a nil error and the container's environment
  has exactly one entry named \<^verbatim>\<open>K8SGPT_ENGINE\<close>, whose value is the configured engine; if the
  backend is any other value, it returns the empty Deployment together with the
  validation error.
\<close>

theorem GetDeployment_engine:
  assumes "ai_Engine (sp_AI (cfg_Spec config)) \<noteq> []"
  shows "(ai_Backend (sp_AI (cfg_Spec config)) = AzureOpenAI \<longrightarrow>
            snd (GetDeployment config) = None \<and>
            filter (\<lambda>v. ev_Name v = ''K8SGPT_ENGINE'') (containerEnv (fst (GetDeployment config)))
              = [\<lparr>ev_Name = ''K8SGPT_ENGINE'', ev_Value = ai_Engine (sp_AI (cfg_Spec config)),
                  ev_ValueFrom = None\<rparr>])
       \<and> (ai_Backend (sp_AI (cfg_Spec config)) \<noteq> AzureOpenAI \<longrightarrow>
            GetDeployment config =
              (Deployment_zero, Some (ErrorNew ''Engine is supported only by azureopenai provider.'')))"
proof (intro conjI impI)
  assume az: "ai_Backend (sp_AI (cfg_Spec config)) = AzureOpenAI"
  then show ok: "snd (GetDeployment config) = None"
    by (simp add: GetDeployment_error)
  show "filter (\<lambda>v. ev_Name v = ''K8SGPT_ENGINE'') (containerEnv (fst (GetDeployment config)))
              = [\<lparr>ev_Name = ''K8SGPT_ENGINE'', ev_Value = ai_Engine (sp_AI (cfg_Spec config)),
                  ev_ValueFrom = None\<rparr>]"
    using assms
    by (simp add: GetDeployment_env[OF ok] containerEnv_deploymentLiteral secretEnvVar_def
          split: option.splits)
next
  assume "ai_Backend (sp_AI (cfg_Spec config)) \<noteq> AzureOpenAI"
  with assms show "GetDeployment config =
              (Deployment_zero, Some (ErrorNew ''Engine is supported only by azureopenai provider.''))"
    by (simp add: GetDeployment_def Let_def)
qed

theorem GetDeployment_engine_witness:
  "ai_Engine (sp_AI (cfg_Spec (exampleConfig (exampleAI ''azureopenai'' ''gpt-4'' None) None))) \<noteq> []
   \<and> snd (GetDeployment (exampleConfig (exampleAI ''azureopenai'' ''gpt-4'' None) None)) = None
   \<and> filter (\<lambda>v. ev_Name v = ''K8SGPT_ENGINE'')
        (containerEnv (fst (GetDeployment (exampleConfig (exampleAI ''azureopenai'' ''gpt-4'' None) None))))
       = [\<lparr>ev_Name = ''K8SGPT_ENGINE'', ev_Value = ''gpt-4'', ev_ValueFrom = None\<rparr>]
   \<and> ai_Engine (sp_AI (cfg_Spec (exampleConfig (exampleAI ''openai'' ''gpt-4'' None) None))) \<noteq> []
   \<and> GetDeployment (exampleConfig (exampleAI ''openai'' ''gpt-4'' None) None) =
       (Deployment_zero, Some (ErrorNew ''Engine is supported only by azureopenai provider.''))"
  using GetDeployment_engine [of "exampleConfig (exampleAI ''azureopenai'' ''gpt-4'' None) None"]
        GetDeployment_engine [of "exampleConfig (exampleAI ''openai'' ''gpt-4'' None) None"]
  by (simp add: example_defs AzureOpenAI_def)

text \<open>
  Claim C2, amended. For every configuration, the objects built by \<^verbatim>\<open>GetService\<close>,
  \<^verbatim>\<open>GetServiceAccount\<close>, \<^verbatim>\<open>GetClusterRole\<close> and \<^verbatim>\<open>GetClusterRoleBinding\<close> carry exactly one
  owner reference, whose kind, name, UID and API version are the configuration's and whose
  controller and block-owner-deletion flags are true; so does the Deployment of
  \<^verbatim>\<open>GetDeployment\<close> whenever it returns a nil error.
\<close>

theorem builders_ownerReference:
  "om_OwnerReferences (svc_ObjectMeta (fst (GetService config))) = [ownerReferenceOf config]
   \<and> om_OwnerReferences (sa_ObjectMeta (fst (GetServiceAccount config))) = [ownerReferenceOf config]
   \<and> om_OwnerReferences (cro_ObjectMeta (fst (GetClusterRole config))) = [ownerReferenceOf config]
   \<and> om_OwnerReferences (crb_ObjectMeta (fst (GetClusterRoleBinding config))) = [ownerReferenceOf config]
   \<and> (snd (GetDeployment config) = None \<longrightarrow>
        om_OwnerReferences (dep_ObjectMeta (fst (GetDeployment config))) = [ownerReferenceOf config])"
  by (simp add: GetService_def GetServiceAccount_def GetClusterRole_def GetClusterRoleBinding_def
        GetDeployment_ownerRefs ownerReferenceOf_def)

theorem builders_ownerReference_witness:
  "snd (GetDeployment (exampleConfig (exampleAI ''openai'' [] None) None)) = None
   \<and> om_OwnerReferences (dep_ObjectMeta (fst (GetDeployment (exampleConfig (exampleAI ''openai'' [] None) None))))
     = [\<lparr>or_APIVersion = ''core.k8sgpt.ai/v1alpha1'', or_Kind = ''K8sGPT'',
         or_Name = ''k8sgpt-sample'', or_UID = ''uid-1'',
         or_Controller = Some True, or_BlockOwnerDeletion = Some True\<rparr>]"
  using builders_ownerReference [of "exampleConfig (exampleAI ''openai'' [] None) None"]
  by (simp add: GetDeployment_error ownerReferenceOf_def example_defs)

text \<open>
  With an engine and the backend \<^verbatim>\<open>openai\<close>, the object that \<^verbatim>\<open>GetDeployment\<close> returns
  has no owner reference at all.
\<close>

theorem GetDeployment_ownerReference_counterexample:
  "om_OwnerReferences (dep_ObjectMeta (fst (GetDeployment
      (exampleConfig (exampleAI ''openai'' ''gpt-4'' None) None)))) = []
   \<and> om_OwnerReferences (dep_ObjectMeta (fst (GetDeployment
      (exampleConfig (exampleAI ''openai'' ''gpt-4'' None) None))))
     \<noteq> [ownerReferenceOf (exampleConfig (exampleAI ''openai'' ''gpt-4'' None) None)]"
  by (simp add: GetDeployment_def Let_def example_defs AzureOpenAI_def Deployment_zero_def
        ObjectMeta_zero_def)

lemma credentialVars_GetDeployment:
  assumes "snd (GetDeployment config) = None"
  shows "credentialVars (fst (GetDeployment config)) =
     (case sp_RemoteCache (cfg_Spec config) of
          None \<Rightarrow> []
        | Some rc \<Rightarrow>
            if rc_Azure rc \<noteq> None then
              [secretEnvVar ''AZURE_CLIENT_ID'' (cr_Name (rc_Credentials rc)) ''azure_client_id'',
               secretEnvVar ''AZURE_TENANT_ID'' (cr_Name (rc_Credentials rc)) ''azure_tenant_id'',
               secretEnvVar ''AZURE_CLIENT_SECRET'' (cr_Name (rc_Credentials rc)) ''azure_client_secret'']
            else if rc_S3 rc \<noteq> None then
              [secretEnvVar ''AWS_ACCESS_KEY_ID'' (cr_Name (rc_Credentials rc)) ''aws_access_key_id'',
               secretEnvVar ''AWS_SECRET_ACCESS_KEY'' (cr_Name (rc_Credentials rc)) ''aws_secret_access_key'']
            else [])"
  by (simp add: credentialVars_def GetDeployment_env[OF assms] containerEnv_deploymentLiteral
        secretEnvVar_def split: option.splits)

text \<open>
  Claim C3, amended. Let \<^verbatim>\<open>GetDeployment\<close> return a nil error. If the remote-cache block
  has a non-nil Azure sub-field, the credential variables of the container are exactly
  \<^verbatim>\<open>AZURE_CLIENT_ID\<close>, \<^verbatim>\<open>AZURE_TENANT_ID\<close> and \<^verbatim>\<open>AZURE_CLIENT_SECRET\<close>, each read from the
  referenced credential secret, and none of the AWS names occurs. If the Azure sub-field
  is nil and the S3 sub-field is not, they are exactly \<^verbatim>\<open>AWS_ACCESS_KEY_ID\<close> and
  \<^verbatim>\<open>AWS_SECRET_ACCESS_KEY\<close>, and none of the Azure names occurs. Without a remote-cache
  block, or with both sub-fields nil, there is no credential variable.
\<close>

theorem remoteCache_credentials:
  assumes "snd (GetDeployment config) = None"
  shows "(\<forall>rc. sp_RemoteCache (cfg_Spec config) = Some rc \<and> rc_Azure rc \<noteq> None \<longrightarrow>
            credentialVars (fst (GetDeployment config)) =
              [secretEnvVar ''AZURE_CLIENT_ID'' (cr_Name (rc_Credentials rc)) ''azure_client_id'',
               secretEnvVar ''AZURE_TENANT_ID'' (cr_Name (rc_Credentials rc)) ''azure_tenant_id'',
               secretEnvVar ''AZURE_CLIENT_SECRET'' (cr_Name (rc_Credentials rc)) ''azure_client_secret''])
       \<and> (\<forall>rc. sp_RemoteCache (cfg_Spec config) = Some rc \<and> rc_Azure rc = None \<and> rc_S3 rc \<noteq> None \<longrightarrow>
            credentialVars (fst (GetDeployment config)) =
              [secretEnvVar ''AWS_ACCESS_KEY_ID'' (cr_Name (rc_Credentials rc)) ''aws_access_key_id'',
               secretEnvVar ''AWS_SECRET_ACCESS_KEY'' (cr_Name (rc_Credentials rc)) ''aws_secret_access_key''])
       \<and> (sp_RemoteCache (cfg_Spec config) = None \<longrightarrow> credentialVars (fst (GetDeployment config)) = [])
       \<and> (\<forall>rc. sp_RemoteCache (cfg_Spec config) = Some rc \<and> rc_Azure rc = None \<and> rc_S3 rc = None \<longrightarrow>
            credentialVars (fst (GetDeployment config)) = [])"
  by (simp add: credentialVars_GetDeployment[OF assms])

theorem remoteCache_credentials_witness:
  "snd (GetDeployment (exampleConfig (exampleAI ''openai'' [] None)
          (Some (exampleRemoteCache None (Some AzureBackend))))) = None
   \<and> credentialVars (fst (GetDeployment (exampleConfig (exampleAI ''openai'' [] None)
          (Some (exampleRemoteCache None (Some AzureBackend)))))) =
       [secretEnvVar ''AZURE_CLIENT_ID'' ''cache-credentials'' ''azure_client_id'',
        secretEnvVar ''AZURE_TENANT_ID'' ''cache-credentials'' ''azure_tenant_id'',
        secretEnvVar ''AZURE_CLIENT_SECRET'' ''cache-credentials'' ''azure_client_secret'']
   \<and> snd (GetDeployment (exampleConfig (exampleAI ''openai'' [] None)
          (Some (exampleRemoteCache (Some S3Backend) None)))) = None
   \<and> credentialVars (fst (GetDeployment (exampleConfig (exampleAI ''openai'' [] None)
          (Some (exampleRemoteCache (Some S3Backend) None))))) =
       [secretEnvVar ''AWS_ACCESS_KEY_ID'' ''cache-credentials'' ''aws_access_key_id'',
        secretEnvVar ''AWS_SECRET_ACCESS_KEY'' ''cache-credentials'' ''aws_secret_access_key'']"
  using remoteCache_credentials [of "exampleConfig (exampleAI ''openai'' [] None)
          (Some (exampleRemoteCache None (Some AzureBackend)))"]
        remoteCache_credentials [of "exampleConfig (exampleAI ''openai'' [] None)
          (Some (exampleRemoteCache (Some S3Backend) None))"]
  by (simp add: GetDeployment_error example_defs)

text \<open>
  With both sub-fields set, S3 is non-nil and yet the container has the three Azure
  variables and no AWS variable (line 307 is an \<^verbatim>\<open>else if\<close>); and with an Azure sub-field,
  an engine and the backend \<^verbatim>\<open>openai\<close>, the returned Deployment is empty.
\<close>

theorem remoteCache_S3_counterexample:
  "rc_S3 (exampleRemoteCache (Some S3Backend) (Some AzureBackend)) \<noteq> None
   \<and> credentialVars (fst (GetDeployment (exampleConfig (exampleAI ''openai'' [] None)
          (Some (exampleRemoteCache (Some S3Backend) (Some AzureBackend)))))) =
       [secretEnvVar ''AZURE_CLIENT_ID'' ''cache-credentials'' ''azure_client_id'',
        secretEnvVar ''AZURE_TENANT_ID'' ''cache-credentials'' ''azure_tenant_id'',
        secretEnvVar ''AZURE_CLIENT_SECRET'' ''cache-credentials'' ''azure_client_secret'']
   \<and> credentialVars (fst (GetDeployment (exampleConfig (exampleAI ''openai'' [] None)
          (Some (exampleRemoteCache (Some S3Backend) (Some AzureBackend)))))) \<noteq>
       [secretEnvVar ''AWS_ACCESS_KEY_ID'' ''cache-credentials'' ''aws_access_key_id'',
        secretEnvVar ''AWS_SECRET_ACCESS_KEY'' ''cache-credentials'' ''aws_secret_access_key'']
   \<and> rc_Azure (exampleRemoteCache None (Some AzureBackend)) \<noteq> None
   \<and> credentialVars (fst (GetDeployment (exampleConfig (exampleAI ''openai'' ''gpt-4'' None)
          (Some (exampleRemoteCache None (Some AzureBackend)))))) = []"
proof -
  have ok: "snd (GetDeployment (exampleConfig (exampleAI ''openai'' [] None)
          (Some (exampleRemoteCache (Some S3Backend) (Some AzureBackend))))) = None"
    by (simp add: GetDeployment_error example_defs)
  have bad: "fst (GetDeployment (exampleConfig (exampleAI ''openai'' ''gpt-4'' None)
          (Some (exampleRemoteCache None (Some AzureBackend))))) = Deployment_zero"
    by (simp add: GetDeployment_def Let_def example_defs AzureOpenAI_def)
  show ?thesis
    by (simp add: credentialVars_GetDeployment[OF ok] bad)
       (simp add: example_defs credentialVars_def containerEnv_def Deployment_zero_def secretEnvVar_def)
qed

text \<open>
  Claim C9. \<^verbatim>\<open>GetService\<close>, \<^verbatim>\<open>GetServiceAccount\<close>, \<^verbatim>\<open>GetClusterRole\<close> and
  \<^verbatim>\<open>GetClusterRoleBinding\<close> return a nil error for every configuration; \<^verbatim>\<open>GetDeployment\<close>
  can fail; the build phase of \<^verbatim>\<open>Sync\<close> returns an error exactly when \<^verbatim>\<open>GetDeployment\<close>
  does, with that error and before any call to the cluster, and otherwise the loop runs
  over the five built objects in order.
\<close>

theorem builders_errors:
  "snd (GetService config) = None
   \<and> snd (GetServiceAccount config) = None
   \<and> snd (GetClusterRole config) = None
   \<and> snd (GetClusterRoleBinding config) = None
   \<and> snd (GetDeployment (exampleConfig (exampleAI ''openai'' ''gpt-4'' None) None)) \<noteq> None
   \<and> buildObjects config =
       (case snd (GetDeployment config) of
          Some er \<Rightarrow> Inl er
        | None \<Rightarrow> Inr [ObjService (fst (GetService config)),
                       ObjServiceAccount (fst (GetServiceAccount config)),
                       ObjClusterRole (fst (GetClusterRole config)),
                       ObjClusterRoleBinding (fst (GetClusterRoleBinding config)),
                       ObjDeployment (fst (GetDeployment config))])
   \<and> Sync c ctx config i s =
       (case snd (GetDeployment config) of
          Some er \<Rightarrow> (Some er, s)
        | None \<Rightarrow> syncObjects c ctx config i
                    [ObjService (fst (GetService config)),
                     ObjServiceAccount (fst (GetServiceAccount config)),
                     ObjClusterRole (fst (GetClusterRole config)),
                     ObjClusterRoleBinding (fst (GetClusterRoleBinding config)),
                     ObjDeployment (fst (GetDeployment config))] s)"
proof -
  have b: "buildObjects config =
       (case snd (GetDeployment config) of
          Some er \<Rightarrow> Inl er
        | None \<Rightarrow> Inr [ObjService (fst (GetService config)),
                       ObjServiceAccount (fst (GetServiceAccount config)),
                       ObjClusterRole (fst (GetClusterRole config)),
                       ObjClusterRoleBinding (fst (GetClusterRoleBinding config)),
                       ObjDeployment (fst (GetDeployment config))])"
    by (cases "GetDeployment config")
       (simp add: buildObjects_def GetService_def GetServiceAccount_def GetClusterRole_def
          GetClusterRoleBinding_def Let_def split: option.splits)
  have e: "snd (GetDeployment (exampleConfig (exampleAI ''openai'' ''gpt-4'' None) None)) \<noteq> None"
    by (simp add: GetDeployment_error example_defs AzureOpenAI_def)
  show ?thesis
    by (simp add: e b Sync_def GetService_def GetServiceAccount_def GetClusterRole_def
          GetClusterRoleBinding_def Let_def split: option.splits)
qed

section \<open>The retry loop and doSync\<close>

lemma trace_clientGetSecret:
  "trace (snd (clientGetSecret c ctx key s)) =
     trace s @ [GetEvent ctx SecretKind key (errorOf (fst (clientGetSecret c ctx key s)))]"
  by (simp add: clientGetSecret_def split: prod.splits)

lemma trace_clientGetDeployment:
  "trace (snd (clientGetDeployment c ctx key s)) =
     trace s @ [GetEvent ctx DeploymentKind key (errorOf (fst (clientGetDeployment c ctx key s)))]"
  by (simp add: clientGetDeployment_def split: prod.splits)

lemma trace_clientGetService:
  "trace (snd (clientGetService c ctx key s)) =
     trace s @ [GetEvent ctx ServiceKind key (errorOf (fst (clientGetService c ctx key s)))]"
  by (simp add: clientGetService_def split: prod.splits)

lemma trace_clientDelete:
  "trace (snd (clientDelete c ctx obj s)) =
     trace s @ [DeleteEvent ctx obj (fst (clientDelete c ctx obj s))]"
  by (simp add: clientDelete_def split: prod.splits)

lemma trace_CreateOrPatch:
  "trace (snd (CreateOrPatch c ctx obj m s)) =
     trace s @ [CreateOrPatchEvent ctx obj m (fst (CreateOrPatch c ctx obj m s))]"
  by (simp add: CreateOrPatch_def split: prod.splits)

text \<open>The attempts of the retry loop, read from the trace: all but the last returned a
  conflict, and a last attempt that returned a conflict used up the budget.\<close>

lemma retryLoop_attempts:
  "\<exists>rs. trace (snd (retryLoop n lastErr (CreateOrPatch c ctx obj m) s)) =
          trace s @ map (CreateOrPatchEvent ctx obj m) rs
      \<and> length rs \<le> n
      \<and> (\<forall>r \<in> set (butlast rs). isConflictResult r)
      \<and> (rs = [] \<longrightarrow> n = 0 \<and> fst (retryLoop n lastErr (CreateOrPatch c ctx obj m) s) = lastErr)
      \<and> (rs \<noteq> [] \<longrightarrow> fst (retryLoop n lastErr (CreateOrPatch c ctx obj m) s) = last rs
            \<and> (isConflictResult (last rs) \<longrightarrow> length rs = n))"
proof (induction n arbitrary: lastErr s)
  case 0
  show ?case by (rule exI[of _ "[]"]) simp
next
  case (Suc n)
  obtain r s1 where step: "CreateOrPatch c ctx obj m s = (r, s1)"
    by (cases "CreateOrPatch c ctx obj m s")
  have tr1: "trace s1 = trace s @ [CreateOrPatchEvent ctx obj m r]"
    using trace_CreateOrPatch[of c ctx obj m s] step by simp
  show ?case
  proof (cases "isConflictResult r")
    case False
    then have res: "retryLoop (Suc n) lastErr (CreateOrPatch c ctx obj m) s = (r, s1)"
      using step by (cases r) simp_all
    show ?thesis
      by (rule exI[of _ "[r]"]) (simp add: res tr1 False del: retryLoop.simps)
  next
    case True
    then obtain e where r: "r = Some e" and ce: "IsConflict e"
      by (cases r) simp_all
    have res: "retryLoop (Suc n) lastErr (CreateOrPatch c ctx obj m) s =
                 retryLoop n (Some e) (CreateOrPatch c ctx obj m) s1"
      using step r ce by simp
    from Suc.IH[of "Some e" s1] obtain rs where
      a: "trace (snd (retryLoop n (Some e) (CreateOrPatch c ctx obj m) s1)) =
            trace s1 @ map (CreateOrPatchEvent ctx obj m) rs"
      and b: "length rs \<le> n"
      and c: "\<forall>r \<in> set (butlast rs). isConflictResult r"
      and d: "rs = [] \<longrightarrow> n = 0 \<and> fst (retryLoop n (Some e) (CreateOrPatch c ctx obj m) s1) = Some e"
      and f: "rs \<noteq> [] \<longrightarrow> fst (retryLoop n (Some e) (CreateOrPatch c ctx obj m) s1) = last rs
            \<and> (isConflictResult (last rs) \<longrightarrow> length rs = n)"
      by blast
    show ?thesis
      apply (rule exI[of _ "r # rs"])
      using a b c d f True r ce
      by (auto simp add: res tr1 simp del: retryLoop.simps)
  qed
qed

lemma retryOnConflict_attempts:
  "\<exists>rs. trace (snd (RetryOnConflict DefaultRetry (CreateOrPatch c ctx obj m) s)) =
          trace s @ map (CreateOrPatchEvent ctx obj m) rs
      \<and> 1 \<le> length rs \<and> length rs \<le> Steps DefaultRetry
      \<and> (\<forall>r \<in> set (butlast rs). isConflictResult r)
      \<and> fst (RetryOnConflict DefaultRetry (CreateOrPatch c ctx obj m) s) = last rs
      \<and> (isConflictResult (last rs) \<longrightarrow> length rs = Steps DefaultRetry)"
proof -
  from retryLoop_attempts[of 5 None c ctx obj m s] obtain rs where
    a: "trace (snd (retryLoop 5 None (CreateOrPatch c ctx obj m) s)) =
          trace s @ map (CreateOrPatchEvent ctx obj m) rs"
    and b: "length rs \<le> 5"
    and c: "\<forall>r \<in> set (butlast rs). isConflictResult r"
    and d: "rs = [] \<longrightarrow> (5::nat) = 0 \<and> fst (retryLoop 5 None (CreateOrPatch c ctx obj m) s) = None"
    and f: "rs \<noteq> [] \<longrightarrow> fst (retryLoop 5 None (CreateOrPatch c ctx obj m) s) = last rs
            \<and> (isConflictResult (last rs) \<longrightarrow> length rs = 5)"
    by blast
  from d have ne: "rs \<noteq> []" by auto
  then have "1 \<le> length rs" by (cases rs) simp_all
  with a b c f ne show ?thesis
    by (intro exI[of _ rs]) (simp add: RetryOnConflict_def DefaultRetry_def)
qed

lemma first_attempt:
  assumes "1 \<le> length rs" "\<forall>r \<in> set (butlast rs). isConflictResult r"
    "isConflictResult (last rs) \<longrightarrow> length rs = Steps DefaultRetry"
  shows "(isConflictResult (hd rs) \<longrightarrow> 2 \<le> length rs) \<and> (\<not> isConflictResult (hd rs) \<longrightarrow> rs = [hd rs])"
proof (cases rs)
  case Nil
  with assms show ?thesis by simp
next
  case (Cons r rs')
  show ?thesis
  proof (cases rs')
    case Nil
    with Cons assms show ?thesis by (simp add: DefaultRetry_def)
  next
    case (Cons r' rs'')
    with \<open>rs = r # rs'\<close> assms show ?thesis by simp
  qed
qed

lemma trace_doSync_switch:
  "trace (snd (doSync_switch clt obj s)) =
     trace s @
       (case obj of
          ObjDeployment expect \<Rightarrow>
            [GetEvent Background DeploymentKind (ObjectKeyFromObject obj)
               (errorOf (fst (clientGetDeployment clt Background (ObjectKeyFromObject obj) s)))]
        | ObjService expect \<Rightarrow>
            [GetEvent Background ServiceKind (ObjectKeyFromObject obj)
               (errorOf (fst (clientGetService clt Background (ObjectKeyFromObject obj) s)))]
        | _ \<Rightarrow> [])"
proof (cases obj)
  case (ObjDeployment expect)
  show ?thesis
    using trace_clientGetDeployment[of clt Background "ObjectKeyFromObject obj" s]
    by (cases "clientGetDeployment clt Background (ObjectKeyFromObject obj) s")
       (auto simp add: doSync_switch_def ObjDeployment split: sum.splits)
next
  case (ObjService expect)
  show ?thesis
    using trace_clientGetService[of clt Background "ObjectKeyFromObject obj" s]
    by (cases "clientGetService clt Background (ObjectKeyFromObject obj) s")
       (auto simp add: doSync_switch_def ObjService split: sum.splits)
qed (simp_all add: doSync_switch_def)

lemma doSync_early_return:
  "doSync_switch clt obj s = (Inl err, s1) \<Longrightarrow> doSync clt ctx obj s = (Some err, s1)"
  by (simp add: doSync_def)

lemma doSync_attempts:
  assumes "doSync_switch clt obj s = (Inr (obj', mutateFn), s1)"
  shows "\<exists>rs. trace (snd (doSync clt ctx obj s)) =
            trace s1 @ map (CreateOrPatchEvent ctx obj' mutateFn) rs
      \<and> 1 \<le> length rs \<and> length rs \<le> Steps DefaultRetry
      \<and> (\<forall>r \<in> set (butlast rs). isConflictResult r)
      \<and> fst (doSync clt ctx obj s) = last rs
      \<and> (isConflictResult (last rs) \<longrightarrow> length rs = Steps DefaultRetry)"
proof -
  have "doSync clt ctx obj s = RetryOnConflict DefaultRetry (CreateOrPatch clt ctx obj' mutateFn) s1"
    using assms by (simp add: doSync_def)
  then show ?thesis
    using retryOnConflict_attempts[of clt ctx obj' mutateFn s1] by simp
qed

lemma doSync_trace:
  "\<exists>evs. trace (snd (doSync clt ctx obj s)) = trace s @ evs
      \<and> filter isSecretFetch evs = [] \<and> filter isDelete evs = []"
proof (cases "doSync_switch clt obj s")
  case (Pair r s1)
  have t1: "\<exists>evs. trace s1 = trace s @ evs \<and> filter isSecretFetch evs = [] \<and> filter isDelete evs = []"
    using trace_doSync_switch[of clt obj s] Pair
    by (cases obj) simp_all
  then obtain evs1 where e1: "trace s1 = trace s @ evs1" "filter isSecretFetch evs1 = []"
     "filter isDelete evs1 = []" by blast
  show ?thesis
  proof (cases r)
    case (Inl err)
    with Pair have "doSync clt ctx obj s = (Some err, s1)" by (simp add: doSync_def)
    with e1 show ?thesis by simp
  next
    case (Inr p)
    obtain obj' m where p: "p = (obj', m)" by (cases p)
    from doSync_attempts[of clt obj s obj' m s1 ctx] Pair Inr p obtain rs where
      "trace (snd (doSync clt ctx obj s)) = trace s1 @ map (CreateOrPatchEvent ctx obj' m) rs"
      by auto
    with e1 show ?thesis
      by (intro exI[of _ "evs1 @ map (CreateOrPatchEvent ctx obj' m) rs"])
         (simp add: filter_map comp_def)
  qed
qed

lemma CreateOrPatch_world:
  "CreateOrPatch c ctx obj m s = (r, s1) \<Longrightarrow>
     cl_CreateOrPatch c ctx obj m (world s) = (r, world s1)"
  by (auto simp add: CreateOrPatch_def split: prod.splits)

text \<open>The same attempts, tied to the answers of the client and to the state it is left in.\<close>

lemma retryLoop_calls:
  "\<exists>rs. trace (snd (retryLoop n lastErr (CreateOrPatch c ctx obj m) s)) =
          trace s @ map (CreateOrPatchEvent ctx obj m) rs
      \<and> clientAnswers c ctx obj m (world s) rs
            (world (snd (retryLoop n lastErr (CreateOrPatch c ctx obj m) s)))
      \<and> length rs \<le> n
      \<and> (\<forall>r \<in> set (butlast rs). isConflictResult r)
      \<and> (rs = [] \<longrightarrow> n = 0 \<and> fst (retryLoop n lastErr (CreateOrPatch c ctx obj m) s) = lastErr)
      \<and> (rs \<noteq> [] \<longrightarrow> fst (retryLoop n lastErr (CreateOrPatch c ctx obj m) s) = last rs
            \<and> (isConflictResult (last rs) \<longrightarrow> length rs = n))"
proof (induction n arbitrary: lastErr s)
  case 0
  show ?case by (rule exI[of _ "[]"]) simp
next
  case (Suc n)
  obtain r s1 where step: "CreateOrPatch c ctx obj m s = (r, s1)"
    by (cases "CreateOrPatch c ctx obj m s")
  have tr1: "trace s1 = trace s @ [CreateOrPatchEvent ctx obj m r]"
    using trace_CreateOrPatch[of c ctx obj m s] step by simp
  have w1: "cl_CreateOrPatch c ctx obj m (world s) = (r, world s1)"
    by (rule CreateOrPatch_world[OF step])
  show ?case
  proof (cases "isConflictResult r")
    case False
    then have res: "retryLoop (Suc n) lastErr (CreateOrPatch c ctx obj m) s = (r, s1)"
      using step by (cases r) simp_all
    show ?thesis
      by (rule exI[of _ "[r]"]) (simp add: res tr1 w1 False del: retryLoop.simps)
  next
    case True
    then obtain e where r: "r = Some e" and ce: "IsConflict e"
      by (cases r) simp_all
    have res: "retryLoop (Suc n) lastErr (CreateOrPatch c ctx obj m) s =
                 retryLoop n (Some e) (CreateOrPatch c ctx obj m) s1"
      using step r ce by simp
    from Suc.IH[of "Some e" s1] obtain rs where
      a: "trace (snd (retryLoop n (Some e) (CreateOrPatch c ctx obj m) s1)) =
            trace s1 @ map (CreateOrPatchEvent ctx obj m) rs"
      and w: "clientAnswers c ctx obj m (world s1) rs
            (world (snd (retryLoop n (Some e) (CreateOrPatch c ctx obj m) s1)))"
      and b: "length rs \<le> n"
      and c: "\<forall>r \<in> set (butlast rs). isConflictResult r"
      and d: "rs = [] \<longrightarrow> n = 0 \<and> fst (retryLoop n (Some e) (CreateOrPatch c ctx obj m) s1) = Some e"
      and f: "rs \<noteq> [] \<longrightarrow> fst (retryLoop n (Some e) (CreateOrPatch c ctx obj m) s1) = last rs
            \<and> (isConflictResult (last rs) \<longrightarrow> length rs = n)"
      by blast
    show ?thesis
      apply (rule exI[of _ "r # rs"])
      using a w b c d f True r ce
      by (auto simp add: res tr1 w1 simp del: retryLoop.simps)
  qed
qed

lemma doSync_calls:
  assumes "doSync_switch clt obj s = (Inr (obj', mutateFn), s1)"
  shows "\<exists>rs. trace (snd (doSync clt ctx obj s)) =
            trace s1 @ map (CreateOrPatchEvent ctx obj' mutateFn) rs
      \<and> clientAnswers clt ctx obj' mutateFn (world s1) rs (world (snd (doSync clt ctx obj s)))
      \<and> 1 \<le> length rs \<and> length rs \<le> Steps DefaultRetry
      \<and> (\<forall>r \<in> set (butlast rs). isConflictResult r)
      \<and> fst (doSync clt ctx obj s) = last rs
      \<and> (isConflictResult (last rs) \<longrightarrow> length rs = Steps DefaultRetry)"
proof -
  have eq: "doSync clt ctx obj s = retryLoop 5 None (CreateOrPatch clt ctx obj' mutateFn) s1"
    using assms by (simp add: doSync_def RetryOnConflict_def DefaultRetry_def)
  from retryLoop_calls[of 5 None clt ctx obj' mutateFn s1] obtain rs where
    a: "trace (snd (retryLoop 5 None (CreateOrPatch clt ctx obj' mutateFn) s1)) =
          trace s1 @ map (CreateOrPatchEvent ctx obj' mutateFn) rs"
    and w: "clientAnswers clt ctx obj' mutateFn (world s1) rs
          (world (snd (retryLoop 5 None (CreateOrPatch clt ctx obj' mutateFn) s1)))"
    and b: "length rs \<le> 5"
    and c: "\<forall>r \<in> set (butlast rs). isConflictResult r"
    and d: "rs = [] \<longrightarrow> (5::nat) = 0
              \<and> fst (retryLoop 5 None (CreateOrPatch clt ctx obj' mutateFn) s1) = None"
    and f: "rs \<noteq> [] \<longrightarrow> fst (retryLoop 5 None (CreateOrPatch clt ctx obj' mutateFn) s1) = last rs
            \<and> (isConflictResult (last rs) \<longrightarrow> length rs = 5)"
    by blast
  from d have ne: "rs \<noteq> []" by auto
  then have "1 \<le> length rs" by (cases rs) simp_all
  with a w b c f ne show ?thesis
    by (intro exI[of _ rs]) (simp add: eq DefaultRetry_def)
qed

lemma doSync_handed_on:
  assumes "doSync_switch clt obj s = (Inr (obj', mutateFn), s1)"
  shows "\<exists>rs. rs \<noteq> [] \<and> trace (snd (doSync clt ctx obj s)) =
            trace s1 @ map (CreateOrPatchEvent ctx obj' mutateFn) rs
      \<and> hd rs = fst (cl_CreateOrPatch clt ctx obj' mutateFn (world s1))"
proof -
  from doSync_calls[OF assms, of ctx] obtain rs where
    a: "trace (snd (doSync clt ctx obj s)) = trace s1 @ map (CreateOrPatchEvent ctx obj' mutateFn) rs"
    and w: "clientAnswers clt ctx obj' mutateFn (world s1) rs (world (snd (doSync clt ctx obj s)))"
    and b: "1 \<le> length rs"
    by blast
  from b obtain r0 rs' where rs: "rs = r0 # rs'" by (cases rs) simp_all
  with w have "hd rs = fst (cl_CreateOrPatch clt ctx obj' mutateFn (world s1))" by simp
  with a rs show ?thesis by (intro exI[of _ rs]) simp
qed

text \<open>
  Claim C6. In \<^verbatim>\<open>doSync\<close>, a ServiceAccount, ClusterRole or ClusterRoleBinding is never
  fetched and never given a merge function: every call made for it is \<^verbatim>\<open>CreateOrPatch\<close> with
  the desired object itself and the nil function. For a Deployment or a Service, when the
  fetch finds an existing object, that object is handed on with a merge function that
  replaces its \<^verbatim>\<open>Spec\<close> by the desired \<^verbatim>\<open>Spec\<close> and leaves its metadata, its status and every
  other field as they are; when the fetch reports not-found, the desired object is handed
  on unchanged with no merge function. In each case the object and the function that the
  switch ends with are the arguments with which \<^verbatim>\<open>doSync\<close> then calls \<^verbatim>\<open>CreateOrPatch\<close>, and
  the first recorded result is the client's answer to that call.
\<close>

theorem doSync_merge_function:
  "doSync_switch clt (ObjServiceAccount sa) s = (Inr (ObjServiceAccount sa, None), s)
   \<and> doSync_switch clt (ObjClusterRole cr) s = (Inr (ObjClusterRole cr, None), s)
   \<and> doSync_switch clt (ObjClusterRoleBinding crb) s = (Inr (ObjClusterRoleBinding crb, None), s)
   \<and> (\<forall>obj. obj = ObjServiceAccount sa \<or> obj = ObjClusterRole cr \<or> obj = ObjClusterRoleBinding crb \<longrightarrow>
        (\<exists>rs. rs \<noteq> [] \<and> trace (snd (doSync clt ctx obj s)) =
                 trace s @ map (CreateOrPatchEvent ctx obj None) rs))
   \<and> (\<forall>exist s1.
         clientGetDeployment clt Background (ObjectKeyFromObject (ObjDeployment expect)) s
           = (Inr exist, s1) \<longrightarrow>
         (\<exists>f. doSync_switch clt (ObjDeployment expect) s =
                 (Inr (ObjDeployment exist, Some (DeploymentMutateFn f)), s1)
             \<and> (\<forall>e. f e = (e\<lparr>dep_Spec := dep_Spec expect\<rparr>, None)
                    \<and> dep_Spec (fst (f e)) = dep_Spec expect
                    \<and> dep_ObjectMeta (fst (f e)) = dep_ObjectMeta e
                    \<and> dep_Status (fst (f e)) = dep_Status e)))
   \<and> (\<forall>err s1.
         clientGetDeployment clt Background (ObjectKeyFromObject (ObjDeployment expect)) s
           = (Inl err, s1) \<and> IsNotFound err \<longrightarrow>
         doSync_switch clt (ObjDeployment expect) s = (Inr (ObjDeployment expect, None), s1))
   \<and> (\<forall>exist s1.
         clientGetService clt Background (ObjectKeyFromObject (ObjService expectSvc)) s
           = (Inr exist, s1) \<longrightarrow>
         (\<exists>f. doSync_switch clt (ObjService expectSvc) s =
                 (Inr (ObjService exist, Some (ServiceMutateFn f)), s1)
             \<and> (\<forall>e. f e = (e\<lparr>svc_Spec := svc_Spec expectSvc\<rparr>, None)
                    \<and> svc_Spec (fst (f e)) = svc_Spec expectSvc
                    \<and> svc_ObjectMeta (fst (f e)) = svc_ObjectMeta e
                    \<and> svc_Status (fst (f e)) = svc_Status e)))
   \<and> (\<forall>err s1.
         clientGetService clt Background (ObjectKeyFromObject (ObjService expectSvc)) s
           = (Inl err, s1) \<and> IsNotFound err \<longrightarrow>
         doSync_switch clt (ObjService expectSvc) s = (Inr (ObjService expectSvc, None), s1))
   \<and> (\<forall>obj. obj = ObjServiceAccount sa \<or> obj = ObjClusterRole cr \<or> obj = ObjClusterRoleBinding crb \<longrightarrow>
        (\<exists>rs. rs \<noteq> [] \<and> trace (snd (doSync clt ctx obj s)) =
                 trace s @ map (CreateOrPatchEvent ctx obj None) rs
             \<and> hd rs = fst (cl_CreateOrPatch clt ctx obj None (world s))))
   \<and> (\<forall>exist s1.
         clientGetDeployment clt Background (ObjectKeyFromObject (ObjDeployment expect)) s
           = (Inr exist, s1) \<longrightarrow>
         (\<exists>rs. rs \<noteq> [] \<and> trace (snd (doSync clt ctx (ObjDeployment expect) s)) =
                 trace s1 @ map (CreateOrPatchEvent ctx (ObjDeployment exist)
                   (Some (DeploymentMutateFn (\<lambda>e. (e\<lparr>dep_Spec := dep_Spec expect\<rparr>, None))))) rs
             \<and> hd rs = fst (cl_CreateOrPatch clt ctx (ObjDeployment exist)
                   (Some (DeploymentMutateFn (\<lambda>e. (e\<lparr>dep_Spec := dep_Spec expect\<rparr>, None))))
                   (world s1))))
   \<and> (\<forall>err s1.
         clientGetDeployment clt Background (ObjectKeyFromObject (ObjDeployment expect)) s
           = (Inl err, s1) \<and> IsNotFound err \<longrightarrow>
         (\<exists>rs. rs \<noteq> [] \<and> trace (snd (doSync clt ctx (ObjDeployment expect) s)) =
                 trace s1 @ map (CreateOrPatchEvent ctx (ObjDeployment expect) None) rs
             \<and> hd rs = fst (cl_CreateOrPatch clt ctx (ObjDeployment expect) None (world s1))))
   \<and> (\<forall>exist s1.
         clientGetService clt Background (ObjectKeyFromObject (ObjService expectSvc)) s
           = (Inr exist, s1) \<longrightarrow>
         (\<exists>rs. rs \<noteq> [] \<and> trace (snd (doSync clt ctx (ObjService expectSvc) s)) =
                 trace s1 @ map (CreateOrPatchEvent ctx (ObjService exist)
                   (Some (ServiceMutateFn (\<lambda>e. (e\<lparr>svc_Spec := svc_Spec expectSvc\<rparr>, None))))) rs
             \<and> hd rs = fst (cl_CreateOrPatch clt ctx (ObjService exist)
                   (Some (ServiceMutateFn (\<lambda>e. (e\<lparr>svc_Spec := svc_Spec expectSvc\<rparr>, None))))
                   (world s1))))
   \<and> (\<forall>err s1.
         clientGetService clt Background (ObjectKeyFromObject (ObjService expectSvc)) s
           = (Inl err, s1) \<and> IsNotFound err \<longrightarrow>
         (\<exists>rs. rs \<noteq> [] \<and> trace (snd (doSync clt ctx (ObjService expectSvc) s)) =
                 trace s1 @ map (CreateOrPatchEvent ctx (ObjService expectSvc) None) rs
             \<and> hd rs = fst (cl_CreateOrPatch clt ctx (ObjService expectSvc) None (world s1))))"
proof -
  have sw: "doSync_switch clt (ObjServiceAccount sa) s = (Inr (ObjServiceAccount sa, None), s)"
       "doSync_switch clt (ObjClusterRole cr) s = (Inr (ObjClusterRole cr, None), s)"
       "doSync_switch clt (ObjClusterRoleBinding crb) s = (Inr (ObjClusterRoleBinding crb, None), s)"
    by (simp_all add: doSync_switch_def)
  have verbatim: "\<exists>rs. rs \<noteq> [] \<and> trace (snd (doSync clt ctx obj s)) =
                 trace s @ map (CreateOrPatchEvent ctx obj None) rs"
    if "doSync_switch clt obj s = (Inr (obj, None), s)" for obj
  proof -
    from doSync_attempts[OF that, of ctx] obtain rs where
      "trace (snd (doSync clt ctx obj s)) = trace s @ map (CreateOrPatchEvent ctx obj None) rs"
      "1 \<le> length rs" by blast
    then show ?thesis by (intro exI[of _ rs]) auto
  qed
  have three: "\<forall>obj. obj = ObjServiceAccount sa \<or> obj = ObjClusterRole cr \<or> obj = ObjClusterRoleBinding crb \<longrightarrow>
        (\<exists>rs. rs \<noteq> [] \<and> trace (snd (doSync clt ctx obj s)) =
                 trace s @ map (CreateOrPatchEvent ctx obj None) rs)"
    using verbatim sw by blast
  have dep: "\<forall>exist s1.
         clientGetDeployment clt Background (ObjectKeyFromObject (ObjDeployment expect)) s
           = (Inr exist, s1) \<longrightarrow>
         (\<exists>f. doSync_switch clt (ObjDeployment expect) s =
                 (Inr (ObjDeployment exist, Some (DeploymentMutateFn f)), s1)
             \<and> (\<forall>e. f e = (e\<lparr>dep_Spec := dep_Spec expect\<rparr>, None)
                    \<and> dep_Spec (fst (f e)) = dep_Spec expect
                    \<and> dep_ObjectMeta (fst (f e)) = dep_ObjectMeta e
                    \<and> dep_Status (fst (f e)) = dep_Status e))"
    by (simp add: doSync_switch_def)
  have depNF: "\<forall>err s1.
         clientGetDeployment clt Background (ObjectKeyFromObject (ObjDeployment expect)) s
           = (Inl err, s1) \<and> IsNotFound err \<longrightarrow>
         doSync_switch clt (ObjDeployment expect) s = (Inr (ObjDeployment expect, None), s1)"
    by (simp add: doSync_switch_def)
  have svc: "\<forall>exist s1.
         clientGetService clt Background (ObjectKeyFromObject (ObjService expectSvc)) s
           = (Inr exist, s1) \<longrightarrow>
         (\<exists>f. doSync_switch clt (ObjService expectSvc) s =
                 (Inr (ObjService exist, Some (ServiceMutateFn f)), s1)
             \<and> (\<forall>e. f e = (e\<lparr>svc_Spec := svc_Spec expectSvc\<rparr>, None)
                    \<and> svc_Spec (fst (f e)) = svc_Spec expectSvc
                    \<and> svc_ObjectMeta (fst (f e)) = svc_ObjectMeta e
                    \<and> svc_Status (fst (f e)) = svc_Status e))"
    by (simp add: doSync_switch_def)
  have svcNF: "\<forall>err s1.
         clientGetService clt Background (ObjectKeyFromObject (ObjService expectSvc)) s
           = (Inl err, s1) \<and> IsNotFound err \<longrightarrow>
         doSync_switch clt (ObjService expectSvc) s = (Inr (ObjService expectSvc, None), s1)"
    by (simp add: doSync_switch_def)
  have n1: "(\<forall>obj. obj = ObjServiceAccount sa \<or> obj = ObjClusterRole cr \<or> obj = ObjClusterRoleBinding crb \<longrightarrow>
        (\<exists>rs. rs \<noteq> [] \<and> trace (snd (doSync clt ctx obj s)) =
                 trace s @ map (CreateOrPatchEvent ctx obj None) rs
             \<and> hd rs = fst (cl_CreateOrPatch clt ctx obj None (world s))))"
    using doSync_handed_on sw by blast
  have n2: "(\<forall>exist s1.
         clientGetDeployment clt Background (ObjectKeyFromObject (ObjDeployment expect)) s
           = (Inr exist, s1) \<longrightarrow>
         (\<exists>rs. rs \<noteq> [] \<and> trace (snd (doSync clt ctx (ObjDeployment expect) s)) =
                 trace s1 @ map (CreateOrPatchEvent ctx (ObjDeployment exist)
                   (Some (DeploymentMutateFn (\<lambda>e. (e\<lparr>dep_Spec := dep_Spec expect\<rparr>, None))))) rs
             \<and> hd rs = fst (cl_CreateOrPatch clt ctx (ObjDeployment exist)
                   (Some (DeploymentMutateFn (\<lambda>e. (e\<lparr>dep_Spec := dep_Spec expect\<rparr>, None))))
                   (world s1))))"
  proof (intro allI impI)
    fix exist s1
    assume "clientGetDeployment clt Background (ObjectKeyFromObject (ObjDeployment expect)) s
           = (Inr exist, s1)"
    then have "doSync_switch clt (ObjDeployment expect) s =
        (Inr (ObjDeployment exist,
              Some (DeploymentMutateFn (\<lambda>e. (e\<lparr>dep_Spec := dep_Spec expect\<rparr>, None)))), s1)"
      by (simp add: doSync_switch_def)
    then show "\<exists>rs. rs \<noteq> [] \<and> trace (snd (doSync clt ctx (ObjDeployment expect) s)) =
                 trace s1 @ map (CreateOrPatchEvent ctx (ObjDeployment exist)
                   (Some (DeploymentMutateFn (\<lambda>e. (e\<lparr>dep_Spec := dep_Spec expect\<rparr>, None))))) rs
             \<and> hd rs = fst (cl_CreateOrPatch clt ctx (ObjDeployment exist)
                   (Some (DeploymentMutateFn (\<lambda>e. (e\<lparr>dep_Spec := dep_Spec expect\<rparr>, None))))
                   (world s1))"
      by (rule doSync_handed_on)
  qed
  have n3: "(\<forall>err s1.
         clientGetDeployment clt Background (ObjectKeyFromObject (ObjDeployment expect)) s
           = (Inl err, s1) \<and> IsNotFound err \<longrightarrow>
         (\<exists>rs. rs \<noteq> [] \<and> trace (snd (doSync clt ctx (ObjDeployment expect) s)) =
                 trace s1 @ map (CreateOrPatchEvent ctx (ObjDeployment expect) None) rs
             \<and> hd rs = fst (cl_CreateOrPatch clt ctx (ObjDeployment expect) None (world s1))))"
    using doSync_handed_on depNF by blast
  have n4: "(\<forall>exist s1.
         clientGetService clt Background (ObjectKeyFromObject (ObjService expectSvc)) s
           = (Inr exist, s1) \<longrightarrow>
         (\<exists>rs. rs \<noteq> [] \<and> trace (snd (doSync clt ctx (ObjService expectSvc) s)) =
                 trace s1 @ map (CreateOrPatchEvent ctx (ObjService exist)
                   (Some (ServiceMutateFn (\<lambda>e. (e\<lparr>svc_Spec := svc_Spec expectSvc\<rparr>, None))))) rs
             \<and> hd rs = fst (cl_CreateOrPatch clt ctx (ObjService exist)
                   (Some (ServiceMutateFn (\<lambda>e. (e\<lparr>svc_Spec := svc_Spec expectSvc\<rparr>, None))))
                   (world s1))))"
  proof (intro allI impI)
    fix exist s1
    assume "clientGetService clt Background (ObjectKeyFromObject (ObjService expectSvc)) s
           = (Inr exist, s1)"
    then have "doSync_switch clt (ObjService expectSvc) s =
        (Inr (ObjService exist,
              Some (ServiceMutateFn (\<lambda>e. (e\<lparr>svc_Spec := svc_Spec expectSvc\<rparr>, None)))), s1)"
      by (simp add: doSync_switch_def)
    then show "\<exists>rs. rs \<noteq> [] \<and> trace (snd (doSync clt ctx (ObjService expectSvc) s)) =
                 trace s1 @ map (CreateOrPatchEvent ctx (ObjService exist)
                   (Some (ServiceMutateFn (\<lambda>e. (e\<lparr>svc_Spec := svc_Spec expectSvc\<rparr>, None))))) rs
             \<and> hd rs = fst (cl_CreateOrPatch clt ctx (ObjService exist)
                   (Some (ServiceMutateFn (\<lambda>e. (e\<lparr>svc_Spec := svc_Spec expectSvc\<rparr>, None))))
                   (world s1))"
      by (rule doSync_handed_on)
  qed
  have n5: "(\<forall>err s1.
         clientGetService clt Background (ObjectKeyFromObject (ObjService expectSvc)) s
           = (Inl err, s1) \<and> IsNotFound err \<longrightarrow>
         (\<exists>rs. rs \<noteq> [] \<and> trace (snd (doSync clt ctx (ObjService expectSvc) s)) =
                 trace s1 @ map (CreateOrPatchEvent ctx (ObjService expectSvc) None) rs
             \<and> hd rs = fst (cl_CreateOrPatch clt ctx (ObjService expectSvc) None (world s1))))"
    using doSync_handed_on svcNF by blast
  from sw three dep depNF svc svcNF n1 n2 n3 n4 n5 show ?thesis by (intro conjI)
qed

text \<open>
  Claim C7. If the fetch of \<^verbatim>\<open>doSync\<close> returns early, its error is the result and
  \<^verbatim>\<open>CreateOrPatch\<close> is not called. Otherwise \<^verbatim>\<open>CreateOrPatch\<close> is called at least once and
  at most \<open>Steps DefaultRetry\<close> times with the same arguments, each call in the state that
  the call before it left; the recorded results are the answers of the client to these
  calls; every answer but the last was a conflict; the result of \<^verbatim>\<open>doSync\<close> is the last
  answer; a last answer that is a conflict is the last of the budget. So when the client
  answers the first call with nil or with an error that is no conflict, \<^verbatim>\<open>doSync\<close> returns
  that answer after this one call; and when it answers the first call with a conflict,
  a second call is made in the state the first one left.
\<close>

theorem doSync_retry_on_conflict:
  "(\<forall>err s1. doSync_switch clt obj s = (Inl err, s1) \<longrightarrow> doSync clt ctx obj s = (Some err, s1))
   \<and> (\<forall>obj' mutateFn s1. doSync_switch clt obj s = (Inr (obj', mutateFn), s1) \<longrightarrow>
        (\<exists>rs. trace (snd (doSync clt ctx obj s)) =
                 trace s1 @ map (CreateOrPatchEvent ctx obj' mutateFn) rs
           \<and> clientAnswers clt ctx obj' mutateFn (world s1) rs
                 (world (snd (doSync clt ctx obj s)))
           \<and> 1 \<le> length rs \<and> length rs \<le> Steps DefaultRetry
           \<and> (\<forall>r \<in> set (butlast rs). isConflictResult r)
           \<and> fst (doSync clt ctx obj s) = last rs
           \<and> (isConflictResult (last rs) \<longrightarrow> length rs = Steps DefaultRetry)
           \<and> (isConflictResult (hd rs) \<longrightarrow> 2 \<le> length rs)
           \<and> (\<not> isConflictResult (hd rs) \<longrightarrow> rs = [hd rs])))
   \<and> (\<forall>obj' mutateFn s1 r w.
        doSync_switch clt obj s = (Inr (obj', mutateFn), s1)
        \<and> cl_CreateOrPatch clt ctx obj' mutateFn (world s1) = (r, w)
        \<and> \<not> isConflictResult r \<longrightarrow>
        fst (doSync clt ctx obj s) = r
        \<and> world (snd (doSync clt ctx obj s)) = w
        \<and> trace (snd (doSync clt ctx obj s)) =
             trace s1 @ [CreateOrPatchEvent ctx obj' mutateFn r])
   \<and> (\<forall>obj' mutateFn s1 e w.
        doSync_switch clt obj s = (Inr (obj', mutateFn), s1)
        \<and> cl_CreateOrPatch clt ctx obj' mutateFn (world s1) = (Some e, w)
        \<and> IsConflict e \<longrightarrow>
        (\<exists>rs. trace (snd (doSync clt ctx obj s)) =
                 trace s1 @ CreateOrPatchEvent ctx obj' mutateFn (Some e)
                   # CreateOrPatchEvent ctx obj' mutateFn
                       (fst (cl_CreateOrPatch clt ctx obj' mutateFn w))
                   # map (CreateOrPatchEvent ctx obj' mutateFn) rs))"
proof -
  have p1: "(\<forall>err s1. doSync_switch clt obj s = (Inl err, s1) \<longrightarrow> doSync clt ctx obj s = (Some err, s1))"
  proof (intro allI impI)
    fix err s1 assume "doSync_switch clt obj s = (Inl err, s1)"
    then show "doSync clt ctx obj s = (Some err, s1)" by (rule doSync_early_return)
  qed
  have p2: "(\<forall>obj' mutateFn s1. doSync_switch clt obj s = (Inr (obj', mutateFn), s1) \<longrightarrow>
        (\<exists>rs. trace (snd (doSync clt ctx obj s)) =
                 trace s1 @ map (CreateOrPatchEvent ctx obj' mutateFn) rs
           \<and> clientAnswers clt ctx obj' mutateFn (world s1) rs
                 (world (snd (doSync clt ctx obj s)))
           \<and> 1 \<le> length rs \<and> length rs \<le> Steps DefaultRetry
           \<and> (\<forall>r \<in> set (butlast rs). isConflictResult r)
           \<and> fst (doSync clt ctx obj s) = last rs
           \<and> (isConflictResult (last rs) \<longrightarrow> length rs = Steps DefaultRetry)
           \<and> (isConflictResult (hd rs) \<longrightarrow> 2 \<le> length rs)
           \<and> (\<not> isConflictResult (hd rs) \<longrightarrow> rs = [hd rs])))"
  proof (intro allI impI)
    fix obj' mutateFn s1 assume sw: "doSync_switch clt obj s = (Inr (obj', mutateFn), s1)"
    from doSync_calls[OF sw, of ctx] obtain rs where
      a: "trace (snd (doSync clt ctx obj s)) = trace s1 @ map (CreateOrPatchEvent ctx obj' mutateFn) rs"
      and w: "clientAnswers clt ctx obj' mutateFn (world s1) rs (world (snd (doSync clt ctx obj s)))"
      and b: "1 \<le> length rs" "length rs \<le> Steps DefaultRetry"
      and c: "\<forall>r \<in> set (butlast rs). isConflictResult r"
      and d: "fst (doSync clt ctx obj s) = last rs"
      and e: "isConflictResult (last rs) \<longrightarrow> length rs = Steps DefaultRetry"
      by blast
    from first_attempt[OF b(1) c e] a w b c d e
    show "\<exists>rs. trace (snd (doSync clt ctx obj s)) =
                   trace s1 @ map (CreateOrPatchEvent ctx obj' mutateFn) rs
             \<and> clientAnswers clt ctx obj' mutateFn (world s1) rs
                   (world (snd (doSync clt ctx obj s)))
             \<and> 1 \<le> length rs \<and> length rs \<le> Steps DefaultRetry
             \<and> (\<forall>r \<in> set (butlast rs). isConflictResult r)
             \<and> fst (doSync clt ctx obj s) = last rs
             \<and> (isConflictResult (last rs) \<longrightarrow> length rs = Steps DefaultRetry)
             \<and> (isConflictResult (hd rs) \<longrightarrow> 2 \<le> length rs)
             \<and> (\<not> isConflictResult (hd rs) \<longrightarrow> rs = [hd rs])"
      by (intro exI[of _ rs]) blast
  qed
  have p3: "(\<forall>obj' mutateFn s1 r w.
        doSync_switch clt obj s = (Inr (obj', mutateFn), s1)
        \<and> cl_CreateOrPatch clt ctx obj' mutateFn (world s1) = (r, w)
        \<and> \<not> isConflictResult r \<longrightarrow>
        fst (doSync clt ctx obj s) = r
        \<and> world (snd (doSync clt ctx obj s)) = w
        \<and> trace (snd (doSync clt ctx obj s)) =
             trace s1 @ [CreateOrPatchEvent ctx obj' mutateFn r])"
  proof (intro allI impI)
    fix obj' mutateFn s1 r w
    assume h: "doSync_switch clt obj s = (Inr (obj', mutateFn), s1)
          \<and> cl_CreateOrPatch clt ctx obj' mutateFn (world s1) = (r, w)
          \<and> \<not> isConflictResult r"
    then have sw: "doSync_switch clt obj s = (Inr (obj', mutateFn), s1)" by simp
    from doSync_calls[OF sw, of ctx] obtain rs where
      a: "trace (snd (doSync clt ctx obj s)) = trace s1 @ map (CreateOrPatchEvent ctx obj' mutateFn) rs"
      and w: "clientAnswers clt ctx obj' mutateFn (world s1) rs (world (snd (doSync clt ctx obj s)))"
      and b: "1 \<le> length rs"
      and c: "\<forall>r \<in> set (butlast rs). isConflictResult r"
      and d: "fst (doSync clt ctx obj s) = last rs"
      and e: "isConflictResult (last rs) \<longrightarrow> length rs = Steps DefaultRetry"
      by blast
    from b obtain r0 rs' where rs: "rs = r0 # rs'" by (cases rs) simp_all
    with w h have r0: "r0 = r" by simp
    from first_attempt[OF b c e] rs r0 h have one: "rs' = []" by simp
    from a w d rs r0 one h
    show "fst (doSync clt ctx obj s) = r
          \<and> world (snd (doSync clt ctx obj s)) = w
          \<and> trace (snd (doSync clt ctx obj s)) =
               trace s1 @ [CreateOrPatchEvent ctx obj' mutateFn r]"
      by simp
  qed
  have p4: "(\<forall>obj' mutateFn s1 e w.
        doSync_switch clt obj s = (Inr (obj', mutateFn), s1)
        \<and> cl_CreateOrPatch clt ctx obj' mutateFn (world s1) = (Some e, w)
        \<and> IsConflict e \<longrightarrow>
        (\<exists>rs. trace (snd (doSync clt ctx obj s)) =
                 trace s1 @ CreateOrPatchEvent ctx obj' mutateFn (Some e)
                   # CreateOrPatchEvent ctx obj' mutateFn
                       (fst (cl_CreateOrPatch clt ctx obj' mutateFn w))
                   # map (CreateOrPatchEvent ctx obj' mutateFn) rs))"
  proof (intro allI impI)
    fix obj' mutateFn s1 e w
    assume h: "doSync_switch clt obj s = (Inr (obj', mutateFn), s1)
          \<and> cl_CreateOrPatch clt ctx obj' mutateFn (world s1) = (Some e, w)
          \<and> IsConflict e"
    then have sw: "doSync_switch clt obj s = (Inr (obj', mutateFn), s1)" by simp
    from doSync_calls[OF sw, of ctx] obtain rs where
      a: "trace (snd (doSync clt ctx obj s)) = trace s1 @ map (CreateOrPatchEvent ctx obj' mutateFn) rs"
      and w: "clientAnswers clt ctx obj' mutateFn (world s1) rs (world (snd (doSync clt ctx obj s)))"
      and b: "1 \<le> length rs"
      and c: "\<forall>r \<in> set (butlast rs). isConflictResult r"
      and d: "fst (doSync clt ctx obj s) = last rs"
      and e: "isConflictResult (last rs) \<longrightarrow> length rs = Steps DefaultRetry"
      by blast
    from b obtain r0 rs' where rs: "rs = r0 # rs'" by (cases rs) simp_all
    with w h have r0: "r0 = Some e" and w': "clientAnswers clt ctx obj' mutateFn w rs'
        (world (snd (doSync clt ctx obj s)))" by simp_all
    from first_attempt[OF b c e] rs r0 h have "2 \<le> length rs" by simp
    with rs obtain r1 rs'' where rs': "rs' = r1 # rs''" by (cases rs') simp_all
    with w' have r1: "r1 = fst (cl_CreateOrPatch clt ctx obj' mutateFn w)" by simp
    from a rs r0 rs' r1
    show "\<exists>rs. trace (snd (doSync clt ctx obj s)) =
                   trace s1 @ CreateOrPatchEvent ctx obj' mutateFn (Some e)
                     # CreateOrPatchEvent ctx obj' mutateFn
                         (fst (cl_CreateOrPatch clt ctx obj' mutateFn w))
                     # map (CreateOrPatchEvent ctx obj' mutateFn) rs"
      by (intro exI[of _ rs'']) simp
  qed
  from p1 p2 p3 p4 show ?thesis by (intro conjI)
qed

theorem doSync_merge_function_witness:
  "clientGetDeployment (exampleClient None (Some existingDeployment) None (\<lambda>n. None)) Background
      (ObjectKeyFromObject (ObjDeployment (fst (GetDeployment (exampleConfig (exampleAI ''openai'' [] None) None)))))
      initialState
     = (Inr existingDeployment,
        \<lparr>world = 0, trace = [GetEvent Background DeploymentKind
            (ObjectKeyFromObject (ObjDeployment (fst (GetDeployment (exampleConfig (exampleAI ''openai'' [] None) None)))))
            None]\<rparr>)
   \<and> (\<exists>f. fst (doSync_switch (exampleClient None (Some existingDeployment) None (\<lambda>n. None))
                (ObjDeployment (fst (GetDeployment (exampleConfig (exampleAI ''openai'' [] None) None))))
                initialState)
            = Inr (ObjDeployment existingDeployment, Some (DeploymentMutateFn f))
         \<and> dep_ObjectMeta (fst (f existingDeployment)) = dep_ObjectMeta existingDeployment
         \<and> dep_Status (fst (f existingDeployment)) = dep_Status existingDeployment
         \<and> dep_Spec (fst (f existingDeployment))
             = dep_Spec (fst (GetDeployment (exampleConfig (exampleAI ''openai'' [] None) None))))"
proof -
  let ?c = "exampleClient None (Some existingDeployment) None (\<lambda>n. None)"
  let ?cfg = "exampleConfig (exampleAI ''openai'' [] None) None"
  let ?e = "fst (GetDeployment (exampleConfig (exampleAI ''openai'' [] None) None))"
  let ?s1 = "\<lparr>world = 0::nat, trace = [GetEvent Background DeploymentKind
            (ObjectKeyFromObject (ObjDeployment ?e)) None]\<rparr>"
  have g: "clientGetDeployment ?c Background (ObjectKeyFromObject (ObjDeployment ?e)) initialState
     = (Inr existingDeployment, ?s1)"
    by (simp add: clientGetDeployment_def exampleClient_def initialState_def)
  have "\<forall>exist s1.
         clientGetDeployment ?c Background (ObjectKeyFromObject (ObjDeployment ?e)) initialState
           = (Inr exist, s1) \<longrightarrow>
         (\<exists>f. doSync_switch ?c (ObjDeployment ?e) initialState =
                 (Inr (ObjDeployment exist, Some (DeploymentMutateFn f)), s1)
             \<and> (\<forall>e. f e = (e\<lparr>dep_Spec := dep_Spec ?e\<rparr>, None)
                    \<and> dep_Spec (fst (f e)) = dep_Spec ?e
                    \<and> dep_ObjectMeta (fst (f e)) = dep_ObjectMeta e
                    \<and> dep_Status (fst (f e)) = dep_Status e))"
    using doSync_merge_function [of ?c "fst (GetServiceAccount ?cfg)" initialState
            "fst (GetClusterRole ?cfg)" "fst (GetClusterRoleBinding ?cfg)" Background ?e
            "fst (GetService ?cfg)"]
    by (elim conjE)
  then have "\<exists>f. doSync_switch ?c (ObjDeployment ?e) initialState =
                 (Inr (ObjDeployment existingDeployment, Some (DeploymentMutateFn f)), ?s1)
             \<and> (\<forall>e. f e = (e\<lparr>dep_Spec := dep_Spec ?e\<rparr>, None)
                    \<and> dep_Spec (fst (f e)) = dep_Spec ?e
                    \<and> dep_ObjectMeta (fst (f e)) = dep_ObjectMeta e
                    \<and> dep_Status (fst (f e)) = dep_Status e)"
    using g by (elim allE[of _ existingDeployment] allE[of _ ?s1] impE) assumption+
  then obtain f where
    f1: "doSync_switch ?c (ObjDeployment ?e) initialState =
                 (Inr (ObjDeployment existingDeployment, Some (DeploymentMutateFn f)), ?s1)"
    and f2: "\<forall>e. f e = (e\<lparr>dep_Spec := dep_Spec ?e\<rparr>, None)
                    \<and> dep_Spec (fst (f e)) = dep_Spec ?e
                    \<and> dep_ObjectMeta (fst (f e)) = dep_ObjectMeta e
                    \<and> dep_Status (fst (f e)) = dep_Status e"
    by (elim exE conjE)
  from f2 have f3: "dep_Spec (fst (f existingDeployment)) = dep_Spec ?e"
    "dep_ObjectMeta (fst (f existingDeployment)) = dep_ObjectMeta existingDeployment"
    "dep_Status (fst (f existingDeployment)) = dep_Status existingDeployment"
    by blast+
  have f4: "fst (doSync_switch ?c (ObjDeployment ?e) initialState)
      = Inr (ObjDeployment existingDeployment, Some (DeploymentMutateFn f))"
    by (simp only: f1 fst_conv)
  show ?thesis
    by (rule conjI[OF g]) (rule exI[of _ f], intro conjI f4 f3)
qed

theorem doSync_retry_on_conflict_witness:
  "doSync_switch (exampleClient None None None conflictOnce)
      (ObjServiceAccount (fst (GetServiceAccount (exampleConfig (exampleAI ''openai'' [] None) None))))
      initialState
     = (Inr (ObjServiceAccount (fst (GetServiceAccount (exampleConfig (exampleAI ''openai'' [] None) None))), None),
        initialState)
   \<and> cl_CreateOrPatch (exampleClient None None None conflictOnce) (WithCancel 1)
        (ObjServiceAccount (fst (GetServiceAccount (exampleConfig (exampleAI ''openai'' [] None) None))))
        None (world initialState)
     = (Some (StatusError Conflict ''the object has been modified''), 1)
   \<and> IsConflict (StatusError Conflict ''the object has been modified'')
   \<and> fst (doSync (exampleClient None None None conflictOnce) (WithCancel 1)
        (ObjServiceAccount (fst (GetServiceAccount (exampleConfig (exampleAI ''openai'' [] None) None))))
        initialState) = None
   \<and> trace (snd (doSync (exampleClient None None None conflictOnce) (WithCancel 1)
        (ObjServiceAccount (fst (GetServiceAccount (exampleConfig (exampleAI ''openai'' [] None) None))))
        initialState))
     = [CreateOrPatchEvent (WithCancel 1)
          (ObjServiceAccount (fst (GetServiceAccount (exampleConfig (exampleAI ''openai'' [] None) None))))
          None (Some (StatusError Conflict ''the object has been modified'')),
        CreateOrPatchEvent (WithCancel 1)
          (ObjServiceAccount (fst (GetServiceAccount (exampleConfig (exampleAI ''openai'' [] None) None))))
          None None]
   \<and> cl_CreateOrPatch
        (exampleClient None None None
           (\<lambda>n. Some (StatusError (OtherReason ''Forbidden'') ''serviceaccounts is forbidden'')))
        (WithCancel 1)
        (ObjServiceAccount (fst (GetServiceAccount (exampleConfig (exampleAI ''openai'' [] None) None))))
        None (world initialState)
     = (Some (StatusError (OtherReason ''Forbidden'') ''serviceaccounts is forbidden''), 1)
   \<and> fst (doSync
        (exampleClient None None None
           (\<lambda>n. Some (StatusError (OtherReason ''Forbidden'') ''serviceaccounts is forbidden'')))
        (WithCancel 1)
        (ObjServiceAccount (fst (GetServiceAccount (exampleConfig (exampleAI ''openai'' [] None) None))))
        initialState)
     = Some (StatusError (OtherReason ''Forbidden'') ''serviceaccounts is forbidden'')
   \<and> trace (snd (doSync
        (exampleClient None None None
           (\<lambda>n. Some (StatusError (OtherReason ''Forbidden'') ''serviceaccounts is forbidden'')))
        (WithCancel 1)
        (ObjServiceAccount (fst (GetServiceAccount (exampleConfig (exampleAI ''openai'' [] None) None))))
        initialState))
     = [CreateOrPatchEvent (WithCancel 1)
          (ObjServiceAccount (fst (GetServiceAccount (exampleConfig (exampleAI ''openai'' [] None) None))))
          None (Some (StatusError (OtherReason ''Forbidden'') ''serviceaccounts is forbidden''))]"
proof -
  let ?c = "exampleClient None None None conflictOnce"
  let ?f = "exampleClient None None None
           (\<lambda>n. Some (StatusError (OtherReason ''Forbidden'') ''serviceaccounts is forbidden''))"
  let ?obj = "ObjServiceAccount (fst (GetServiceAccount (exampleConfig (exampleAI ''openai'' [] None) None)))"
  let ?ctx = "WithCancel 1"
  let ?conflict = "StatusError Conflict ''the object has been modified''"
  let ?forbidden = "StatusError (OtherReason ''Forbidden'') ''serviceaccounts is forbidden''"
  have sw: "doSync_switch ?c ?obj initialState = (Inr (?obj, None), initialState)"
    by (simp add: doSync_switch_def)
  have swf: "doSync_switch ?f ?obj initialState = (Inr (?obj, None), initialState)"
    by (simp add: doSync_switch_def)
  have c1: "cl_CreateOrPatch ?c ?ctx ?obj None (world initialState) = (Some ?conflict, 1)"
    by (simp add: exampleClient_def conflictOnce_def initialState_def)
  have c2: "fst (cl_CreateOrPatch ?c ?ctx ?obj None 1) = None"
    by (simp add: exampleClient_def conflictOnce_def)
  have f1: "cl_CreateOrPatch ?f ?ctx ?obj None (world initialState) = (Some ?forbidden, 1)"
    by (simp add: exampleClient_def initialState_def)
  have ic: "IsConflict ?conflict" by simp
  note inst = doSync_retry_on_conflict
  have run: "doSync ?c ?ctx ?obj initialState =
     (None, \<lparr>world = 2, trace =
        [CreateOrPatchEvent ?ctx ?obj None (Some ?conflict),
         CreateOrPatchEvent ?ctx ?obj None None]\<rparr>)"
  proof -
    have "doSync ?c ?ctx ?obj initialState =
            RetryOnConflict DefaultRetry (CreateOrPatch ?c ?ctx ?obj None) initialState"
      by (simp add: doSync_def sw)
    then show ?thesis
      by (simp add: RetryOnConflict_def DefaultRetry_def CreateOrPatch_def
          exampleClient_def conflictOnce_def initialState_def eval_nat_numeral)
  qed
  from inst[of ?c ?obj initialState ?ctx] sw c1 ic
  obtain rs where second:
    "trace (snd (doSync ?c ?ctx ?obj initialState)) =
       trace initialState @ CreateOrPatchEvent ?ctx ?obj None (Some ?conflict)
         # CreateOrPatchEvent ?ctx ?obj None (fst (cl_CreateOrPatch ?c ?ctx ?obj None 1))
         # map (CreateOrPatchEvent ?ctx ?obj None) rs"
    by blast
  have nf: "\<not> isConflictResult (Some ?forbidden)" by simp
  from inst[of ?f ?obj initialState ?ctx] swf f1 nf
  have forb: "fst (doSync ?f ?ctx ?obj initialState) = Some ?forbidden
        \<and> world (snd (doSync ?f ?ctx ?obj initialState)) = 1
        \<and> trace (snd (doSync ?f ?ctx ?obj initialState)) =
             trace initialState @ [CreateOrPatchEvent ?ctx ?obj None (Some ?forbidden)]"
    by blast
  from sw c1 ic run second forb f1 show ?thesis
    by (simp add: initialState_def)
qed

section \<open>The orchestrator\<close>

text \<open>The build phase, and the check of the secret.\<close>

lemma buildObjects_cases:
  "buildObjects config =
     (case snd (GetDeployment config) of
        Some er \<Rightarrow> Inl er
      | None \<Rightarrow> Inr (builtObjects config))"
  by (cases "GetDeployment config")
     (simp add: buildObjects_def GetService_def GetServiceAccount_def GetClusterRole_def
        GetClusterRoleBinding_def Let_def split: option.splits)

lemma buildObjects_error:
  "buildObjects config = Inl er \<Longrightarrow>
     er = ErrorNew ''Engine is supported only by azureopenai provider.''"
  by (simp add: buildObjects_cases GetDeployment_error split: option.splits if_splits)

lemma buildObjects_ok:
  "buildObjects config = Inr objs \<Longrightarrow> snd (GetDeployment config) = None \<and> objs = builtObjects config"
  by (simp add: buildObjects_cases split: option.splits)

lemma checkSecret_None:
  "ai_Secret (sp_AI (cfg_Spec config)) = None \<Longrightarrow> checkSecret c ctx config s = (None, s)"
  by (simp add: checkSecret_def)

lemma checkSecret_Some:
  assumes "ai_Secret (sp_AI (cfg_Spec config)) = Some secretRef"
  shows "checkSecret c ctx config s =
     (case cl_GetSecret c ctx
             \<lparr>key_Namespace = cfg_Namespace config, key_Name = sr_Name secretRef\<rparr> (world s) of
        (r, w) \<Rightarrow>
          ((case r of
              Inl er \<Rightarrow> Some (ErrorNew ''references secret does not exist, cannot create deployment'')
            | Inr secret \<Rightarrow> None),
           \<lparr>world = w,
            trace = trace s @
              [GetEvent ctx SecretKind
                 \<lparr>key_Namespace = cfg_Namespace config, key_Name = sr_Name secretRef\<rparr>
                 (errorOf r)]\<rparr>))"
  using assms
  by (simp add: checkSecret_def clientGetSecret_def split: prod.splits sum.splits)

lemma checkSecret_error:
  "checkSecret c ctx config s = (Some e, s') \<Longrightarrow>
     e = ErrorNew ''references secret does not exist, cannot create deployment''"
  by (auto simp add: checkSecret_def split: option.splits prod.splits sum.splits)

lemma checkSecret_trace:
  "trace (snd (checkSecret c ctx config s)) =
     trace s @
       (case ai_Secret (sp_AI (cfg_Spec config)) of
          None \<Rightarrow> []
        | Some secretRef \<Rightarrow>
            [GetEvent ctx SecretKind
               \<lparr>key_Namespace = cfg_Namespace config, key_Name = sr_Name secretRef\<rparr>
               (errorOf (fst (cl_GetSecret c ctx
                  \<lparr>key_Namespace = cfg_Namespace config, key_Name = sr_Name secretRef\<rparr>
                  (world s))))])"
proof (cases "ai_Secret (sp_AI (cfg_Spec config))")
  case None
  then show ?thesis by (simp add: checkSecret_None)
next
  case (Some secretRef)
  show ?thesis
    by (simp add: checkSecret_Some[OF Some] Some split: prod.splits)
qed

lemma syncObject_SyncOp:
  "syncObject c ctx config SyncOp obj s =
     (case checkSecret c ctx config s of
        (Some e, s') \<Rightarrow> (Some e, s')
      | (None, s') \<Rightarrow>
          (case doSync c ctx obj s' of
             (Some err, s'') \<Rightarrow> if IsAlreadyExists err then (None, s'') else (Some err, s'')
           | (None, s'') \<Rightarrow> (None, s'')))"
  by (simp add: syncObject_def split: prod.splits option.splits)

lemma syncObject_DestroyOp:
  "syncObject c ctx config DestroyOp obj s =
     (case clientDelete c ctx obj s of
        (Some err, s') \<Rightarrow> if IsNotFound err then (None, s') else (Some err, s')
      | (None, s') \<Rightarrow> (None, s'))"
  by (simp add: syncObject_def SyncOp_def DestroyOp_def split: prod.splits option.splits)

lemma syncObject_SyncOp_error:
  assumes "fst (syncObject c ctx config SyncOp obj s) = Some e"
  shows "\<not> IsAlreadyExists e"
proof (cases "checkSecret c ctx config s")
  case (Pair r s')
  show ?thesis
  proof (cases r)
    case (Some e')
    with Pair assms have "e = e'" by (simp add: syncObject_SyncOp)
    with checkSecret_error[of c ctx config s e' s'] Pair Some show ?thesis by simp
  next
    case None
    with Pair assms show ?thesis
      by (auto simp add: syncObject_SyncOp split: prod.splits option.splits if_splits)
  qed
qed

lemma syncObject_DestroyOp_error:
  "fst (syncObject c ctx config DestroyOp obj s) = Some e \<Longrightarrow> \<not> IsNotFound e"
  by (auto simp add: syncObject_DestroyOp split: prod.splits option.splits if_splits)

lemma syncObjects_SyncOp_error:
  "fst (syncObjects c ctx config SyncOp objs s) = Some e \<Longrightarrow> \<not> IsAlreadyExists e"
proof (induction objs arbitrary: s)
  case Nil
  then show ?case by simp
next
  case (Cons obj objs)
  obtain r s' where step: "syncObject c ctx config SyncOp obj s = (r, s')"
    by (cases "syncObject c ctx config SyncOp obj s")
  show ?case
  proof (cases r)
    case None
    with step Cons.prems have "fst (syncObjects c ctx config SyncOp objs s') = Some e" by simp
    then show ?thesis by (rule Cons.IH)
  next
    case (Some e')
    with step Cons.prems have "e = e'" by simp
    with step Some syncObject_SyncOp_error[of c ctx config obj s e] show ?thesis by simp
  qed
qed

lemma syncObjects_DestroyOp_error:
  "fst (syncObjects c ctx config DestroyOp objs s) = Some e \<Longrightarrow> \<not> IsNotFound e"
proof (induction objs arbitrary: s)
  case Nil
  then show ?case by simp
next
  case (Cons obj objs)
  obtain r s' where step: "syncObject c ctx config DestroyOp obj s = (r, s')"
    by (cases "syncObject c ctx config DestroyOp obj s")
  show ?case
  proof (cases r)
    case None
    with step Cons.prems have "fst (syncObjects c ctx config DestroyOp objs s') = Some e" by simp
    then show ?thesis by (rule Cons.IH)
  next
    case (Some e')
    with step Cons.prems have "e = e'" by simp
    with step Some syncObject_DestroyOp_error[of c ctx config obj s e] show ?thesis by simp
  qed
qed

lemma syncObjects_append:
  "syncObjects c ctx config i pre s = (None, s1) \<Longrightarrow>
   syncObjects c ctx config i (pre @ objs) s = syncObjects c ctx config i objs s1"
proof (induction pre arbitrary: s)
  case Nil
  then show ?case by simp
next
  case (Cons obj pre)
  then show ?case
    by (cases "syncObject c ctx config i obj s") (auto split: option.splits)
qed

lemma syncObject_SyncOp_trace:
  "\<exists>evs. trace (snd (syncObject c ctx config SyncOp obj s)) =
            trace (snd (checkSecret c ctx config s)) @ evs
      \<and> filter isSecretFetch evs = [] \<and> filter isDelete evs = []"
proof (cases "checkSecret c ctx config s")
  case (Pair r s')
  show ?thesis
  proof (cases r)
    case (Some e)
    with Pair show ?thesis by (simp add: syncObject_SyncOp)
  next
    case None
    from doSync_trace[of c ctx obj s'] obtain evs where
      e: "trace (snd (doSync c ctx obj s')) = trace s' @ evs"
         "filter isSecretFetch evs = []" "filter isDelete evs = []"
      by blast
    have "snd (syncObject c ctx config SyncOp obj s) = snd (doSync c ctx obj s')"
      using Pair None by (simp add: syncObject_SyncOp split: prod.splits option.splits)
    with e Pair show ?thesis by simp
  qed
qed

lemma syncObject_SyncOp_noDelete:
  "\<exists>evs. trace (snd (syncObject c ctx config SyncOp obj s)) = trace s @ evs
      \<and> filter isDelete evs = []"
proof -
  from syncObject_SyncOp_trace[of c ctx config obj s] obtain evs where
    e: "trace (snd (syncObject c ctx config SyncOp obj s)) =
            trace (snd (checkSecret c ctx config s)) @ evs" "filter isDelete evs = []"
    by blast
  show ?thesis
    using e by (simp add: checkSecret_trace split: option.splits)
qed

lemma syncObject_SyncOp_secretFetches:
  assumes "ai_Secret (sp_AI (cfg_Spec config)) = Some secretRef"
  shows "secretFetches (trace (snd (syncObject c ctx config SyncOp obj s)))
           = secretFetches (trace s) + 1"
proof -
  from syncObject_SyncOp_trace[of c ctx config obj s] obtain evs where
    e: "trace (snd (syncObject c ctx config SyncOp obj s)) =
            trace (snd (checkSecret c ctx config s)) @ evs" "filter isSecretFetch evs = []"
    by blast
  show ?thesis
    using e assms by (simp add: checkSecret_trace secretFetches_def)
qed

lemma syncObjects_SyncOp_noDelete:
  "\<exists>evs. trace (snd (syncObjects c ctx config SyncOp objs s)) = trace s @ evs
      \<and> filter isDelete evs = []"
proof (induction objs arbitrary: s)
  case Nil
  show ?case by simp
next
  case (Cons obj objs)
  obtain r s' where step: "syncObject c ctx config SyncOp obj s = (r, s')"
    by (cases "syncObject c ctx config SyncOp obj s")
  from syncObject_SyncOp_noDelete[of c ctx config obj s] step obtain evs where
    e: "trace s' = trace s @ evs" "filter isDelete evs = []" by auto
  show ?case
  proof (cases r)
    case (Some e')
    with step e show ?thesis by simp
  next
    case None
    from Cons.IH[of s'] obtain evs' where
      "trace (snd (syncObjects c ctx config SyncOp objs s')) = trace s' @ evs'"
      "filter isDelete evs' = []" by blast
    with step None e show ?thesis by simp
  qed
qed

lemma syncObjects_DestroyOp_noCreateOrPatch:
  "\<exists>evs. trace (snd (syncObjects c ctx config DestroyOp objs s)) = trace s @ evs
      \<and> filter isCreateOrPatch evs = []"
proof (induction objs arbitrary: s)
  case Nil
  show ?case by simp
next
  case (Cons obj objs)
  obtain r s' where step: "syncObject c ctx config DestroyOp obj s = (r, s')"
    by (cases "syncObject c ctx config DestroyOp obj s")
  have "snd (syncObject c ctx config DestroyOp obj s) = snd (clientDelete c ctx obj s)"
    by (simp add: syncObject_DestroyOp split: prod.splits option.splits)
  with step have e: "trace s' = trace s @ [DeleteEvent ctx obj (fst (clientDelete c ctx obj s))]"
    using trace_clientDelete[of c ctx obj s] by simp
  show ?case
  proof (cases r)
    case (Some e')
    with step e show ?thesis by simp
  next
    case None
    from Cons.IH[of s'] obtain evs' where
      "trace (snd (syncObjects c ctx config DestroyOp objs s')) = trace s' @ evs'"
      "filter isCreateOrPatch evs' = []" by blast
    with step None e show ?thesis by simp
  qed
qed

lemma syncObjects_SyncOp_secretFetches:
  assumes "ai_Secret (sp_AI (cfg_Spec config)) = Some secretRef"
  shows "secretFetches (trace (snd (syncObjects c ctx config SyncOp objs s)))
            \<le> secretFetches (trace s) + length objs
       \<and> (fst (syncObjects c ctx config SyncOp objs s) = None \<longrightarrow>
            secretFetches (trace (snd (syncObjects c ctx config SyncOp objs s)))
              = secretFetches (trace s) + length objs)"
proof (induction objs arbitrary: s)
  case Nil
  show ?case by simp
next
  case (Cons obj objs)
  obtain r s' where step: "syncObject c ctx config SyncOp obj s = (r, s')"
    by (cases "syncObject c ctx config SyncOp obj s")
  from syncObject_SyncOp_secretFetches[OF assms, of c ctx obj s] step
  have e: "secretFetches (trace s') = secretFetches (trace s) + 1" by simp
  show ?case
  proof (cases r)
    case (Some e')
    with step e show ?thesis by simp
  next
    case None
    with step e Cons.IH[of s'] show ?thesis by simp
  qed
qed

lemma syncObjects_DestroyOp_absent:
  assumes "\<forall>obj w. case fst (cl_Delete c ctx obj w) of None \<Rightarrow> True | Some e \<Rightarrow> IsNotFound e"
  shows "fst (syncObjects c ctx config DestroyOp objs s) = None"
proof (induction objs arbitrary: s)
  case Nil
  show ?case by simp
next
  case (Cons obj objs)
  have "case fst (cl_Delete c ctx obj (world s)) of None \<Rightarrow> True | Some e \<Rightarrow> IsNotFound e"
    using assms by blast
  then have "fst (syncObject c ctx config DestroyOp obj s) = None"
    by (auto simp add: syncObject_DestroyOp clientDelete_def split: prod.splits option.splits)
  then obtain s' where "syncObject c ctx config DestroyOp obj s = (None, s')"
    by (cases "syncObject c ctx config DestroyOp obj s") simp
  with Cons.IH[of s'] show ?case by simp
qed

text \<open>
  Claim C4. Let the configuration reference a secret and let the fetch of that secret, in
  the configuration's namespace and in the state in which \<^verbatim>\<open>Sync\<close> starts, fail. Then
  \<^verbatim>\<open>Sync\<close> in synchronize mode returns a non-nil error; the only call it makes is that one
  fetch (none at all when \<^verbatim>\<open>GetDeployment\<close> fails first); so \<^verbatim>\<open>CreateOrPatch\<close>, through which
  every create and patch goes, is not called for any of the five objects.
\<close>

theorem Sync_missing_secret:
  assumes "ai_Secret (sp_AI (cfg_Spec config)) = Some secretRef"
    and "fst (cl_GetSecret c ctx
                \<lparr>key_Namespace = cfg_Namespace config, key_Name = sr_Name secretRef\<rparr> (world s))
           = Inl e"
  shows "fst (Sync c ctx config SyncOp s) \<noteq> None
     \<and> trace (snd (Sync c ctx config SyncOp s)) =
         trace s @
           (if snd (GetDeployment config) = None then
              [GetEvent ctx SecretKind
                 \<lparr>key_Namespace = cfg_Namespace config, key_Name = sr_Name secretRef\<rparr> (Some e)]
            else [])
     \<and> filter isCreateOrPatch (trace (snd (Sync c ctx config SyncOp s)))
         = filter isCreateOrPatch (trace s)"
proof (cases "snd (GetDeployment config)")
  case (Some er)
  then show ?thesis by (simp add: Sync_def buildObjects_cases)
next
  case None
  obtain r w where g: "cl_GetSecret c ctx
      \<lparr>key_Namespace = cfg_Namespace config, key_Name = sr_Name secretRef\<rparr> (world s) = (r, w)"
    by (cases "cl_GetSecret c ctx
      \<lparr>key_Namespace = cfg_Namespace config, key_Name = sr_Name secretRef\<rparr> (world s)")
  with assms(2) have r: "r = Inl e" by simp
  have cs: "checkSecret c ctx config s =
      (Some (ErrorNew ''references secret does not exist, cannot create deployment''),
       \<lparr>world = w, trace = trace s @
          [GetEvent ctx SecretKind
             \<lparr>key_Namespace = cfg_Namespace config, key_Name = sr_Name secretRef\<rparr> (Some e)]\<rparr>)"
    by (simp add: checkSecret_Some[OF assms(1)] g r)
  have "Sync c ctx config SyncOp s =
      (Some (ErrorNew ''references secret does not exist, cannot create deployment''),
       \<lparr>world = w, trace = trace s @
          [GetEvent ctx SecretKind
             \<lparr>key_Namespace = cfg_Namespace config, key_Name = sr_Name secretRef\<rparr> (Some e)]\<rparr>)"
    by (simp add: Sync_def buildObjects_cases None syncObject_SyncOp cs)
  with None show ?thesis by simp
qed

theorem Sync_missing_secret_witness:
  "ai_Secret (sp_AI (cfg_Spec secretConfig))
     = Some \<lparr>sr_Name = ''k8sgpt-secret'', sr_Key = ''openai-api-key''\<rparr>
   \<and> fst (cl_GetSecret
        (exampleClient (Some (StatusError NotFound ''secret not found'')) None None (\<lambda>n. None))
        (WithCancel 1)
        \<lparr>key_Namespace = cfg_Namespace secretConfig, key_Name = ''k8sgpt-secret''\<rparr>
        (world initialState))
      = Inl (StatusError NotFound ''secret not found'')
   \<and> fst (Sync (exampleClient (Some (StatusError NotFound ''secret not found'')) None None (\<lambda>n. None))
        (WithCancel 1) secretConfig SyncOp initialState) \<noteq> None
   \<and> filter isCreateOrPatch (trace (snd
        (Sync (exampleClient (Some (StatusError NotFound ''secret not found'')) None None (\<lambda>n. None))
           (WithCancel 1) secretConfig SyncOp initialState))) = []"
proof -
  have h1: "ai_Secret (sp_AI (cfg_Spec secretConfig))
     = Some \<lparr>sr_Name = ''k8sgpt-secret'', sr_Key = ''openai-api-key''\<rparr>"
    by (simp add: secretConfig_def example_defs)
  have h2: "fst (cl_GetSecret
        (exampleClient (Some (StatusError NotFound ''secret not found'')) None None (\<lambda>n. None))
        (WithCancel 1)
        \<lparr>key_Namespace = cfg_Namespace secretConfig,
          key_Name = sr_Name \<lparr>sr_Name = ''k8sgpt-secret'', sr_Key = ''openai-api-key''\<rparr>\<rparr>
        (world initialState))
      = Inl (StatusError NotFound ''secret not found'')"
    by (simp add: exampleClient_def)
  from Sync_missing_secret [OF h1 h2] h1 h2 show ?thesis
    by (simp add: initialState_def)
qed

text \<open>
  Claim C5. \<^verbatim>\<open>Sync\<close> never returns an already-exists error in synchronize mode nor a
  not-found error in destroy mode. When the objects before \<open>obj\<close> have been processed
  without a return and \<^verbatim>\<open>doSync\<close> (after a passing secret check) or \<^verbatim>\<open>Delete\<close> returns an error
  for \<open>obj\<close>, then an already-exists error (synchronize) or a not-found error (destroy)
  lets the loop go on with the remaining objects, and any other error is what \<^verbatim>\<open>Sync\<close>
  returns, in the state right after the failing call: what was done for the earlier
  objects stays. If every delete answers nil or not-found, destroy mode returns nil.
  A synchronize pass issues no delete and a destroy pass no create-or-patch, so nothing
  is rolled back.
\<close>

theorem Sync_idempotency_errors:
  "(\<forall>e. fst (Sync c ctx config SyncOp s) = Some e \<longrightarrow> \<not> IsAlreadyExists e)
   \<and> (\<forall>e. fst (Sync c ctx config DestroyOp s) = Some e \<longrightarrow> \<not> IsNotFound e)
   \<and> (\<forall>pre obj post s1 s1' e s2.
        buildObjects config = Inr (pre @ obj # post)
        \<and> syncObjects c ctx config SyncOp pre s = (None, s1)
        \<and> checkSecret c ctx config s1 = (None, s1')
        \<and> doSync c ctx obj s1' = (Some e, s2) \<longrightarrow>
        Sync c ctx config SyncOp s =
          (if IsAlreadyExists e then syncObjects c ctx config SyncOp post s2 else (Some e, s2)))
   \<and> (\<forall>pre obj post s1 e s2.
        buildObjects config = Inr (pre @ obj # post)
        \<and> syncObjects c ctx config DestroyOp pre s = (None, s1)
        \<and> clientDelete c ctx obj s1 = (Some e, s2) \<longrightarrow>
        Sync c ctx config DestroyOp s =
          (if IsNotFound e then syncObjects c ctx config DestroyOp post s2 else (Some e, s2)))
   \<and> ((\<forall>obj w. case fst (cl_Delete c ctx obj w) of None \<Rightarrow> True | Some e \<Rightarrow> IsNotFound e)
        \<and> snd (GetDeployment config) = None \<longrightarrow>
        fst (Sync c ctx config DestroyOp s) = None)
   \<and> (\<exists>evs. trace (snd (Sync c ctx config SyncOp s)) = trace s @ evs \<and> filter isDelete evs = [])
   \<and> (\<exists>evs. trace (snd (Sync c ctx config DestroyOp s)) = trace s @ evs
          \<and> filter isCreateOrPatch evs = [])"
proof (intro conjI allI impI)
  fix e assume a: "fst (Sync c ctx config SyncOp s) = Some e"
  show "\<not> IsAlreadyExists e"
  proof (cases "buildObjects config")
    case (Inl er)
    with a buildObjects_error[OF Inl] show ?thesis by (auto simp add: Sync_def)
  next
    case (Inr objs)
    with a show ?thesis by (simp add: Sync_def syncObjects_SyncOp_error)
  qed
next
  fix e assume a: "fst (Sync c ctx config DestroyOp s) = Some e"
  show "\<not> IsNotFound e"
  proof (cases "buildObjects config")
    case (Inl er)
    with a buildObjects_error[OF Inl] show ?thesis by (auto simp add: Sync_def)
  next
    case (Inr objs)
    with a show ?thesis by (simp add: Sync_def syncObjects_DestroyOp_error)
  qed
next
  fix pre obj post s1 s1' e s2
  assume a: "buildObjects config = Inr (pre @ obj # post)
        \<and> syncObjects c ctx config SyncOp pre s = (None, s1)
        \<and> checkSecret c ctx config s1 = (None, s1')
        \<and> doSync c ctx obj s1' = (Some e, s2)"
  then have "Sync c ctx config SyncOp s = syncObjects c ctx config SyncOp (obj # post) s1"
    by (simp add: Sync_def syncObjects_append)
  with a show "Sync c ctx config SyncOp s =
          (if IsAlreadyExists e then syncObjects c ctx config SyncOp post s2 else (Some e, s2))"
    by (simp add: syncObject_SyncOp)
next
  fix pre obj post s1 e s2
  assume a: "buildObjects config = Inr (pre @ obj # post)
        \<and> syncObjects c ctx config DestroyOp pre s = (None, s1)
        \<and> clientDelete c ctx obj s1 = (Some e, s2)"
  then have "Sync c ctx config DestroyOp s = syncObjects c ctx config DestroyOp (obj # post) s1"
    by (simp add: Sync_def syncObjects_append)
  with a show "Sync c ctx config DestroyOp s =
          (if IsNotFound e then syncObjects c ctx config DestroyOp post s2 else (Some e, s2))"
    by (simp add: syncObject_DestroyOp)
next
  assume a: "(\<forall>obj w. case fst (cl_Delete c ctx obj w) of None \<Rightarrow> True | Some e \<Rightarrow> IsNotFound e)
        \<and> snd (GetDeployment config) = None"
  then have "Sync c ctx config DestroyOp s = syncObjects c ctx config DestroyOp (builtObjects config) s"
    by (simp add: Sync_def buildObjects_cases)
  moreover from a have "fst (syncObjects c ctx config DestroyOp (builtObjects config) s) = None"
    by (intro syncObjects_DestroyOp_absent) blast
  ultimately show "fst (Sync c ctx config DestroyOp s) = None"
    by (simp only:)
next
  show "\<exists>evs. trace (snd (Sync c ctx config SyncOp s)) = trace s @ evs \<and> filter isDelete evs = []"
    using syncObjects_SyncOp_noDelete[of c ctx config _ s]
    by (cases "buildObjects config") (simp_all add: Sync_def)
next
  show "\<exists>evs. trace (snd (Sync c ctx config DestroyOp s)) = trace s @ evs
          \<and> filter isCreateOrPatch evs = []"
    using syncObjects_DestroyOp_noCreateOrPatch[of c ctx config _ s]
    by (cases "buildObjects config") (simp_all add: Sync_def)
qed

lemma exampleConfig_noSecret:
  "ai_Secret (sp_AI (cfg_Spec (exampleConfig (exampleAI backend engine None) remoteCache))) = None"
  by (simp add: example_defs)

lemma secretConfig_secret:
  "ai_Secret (sp_AI (cfg_Spec secretConfig))
     = Some \<lparr>sr_Name = ''k8sgpt-secret'', sr_Key = ''openai-api-key''\<rparr>"
  by (simp add: secretConfig_def example_defs)

lemma secretConfig_ok: "snd (GetDeployment secretConfig) = None"
  by (simp add: GetDeployment_error secretConfig_def example_defs)

lemma exampleConfig_ok:
  "snd (GetDeployment (exampleConfig (exampleAI ''openai'' [] secret) remoteCache)) = None"
  by (simp add: GetDeployment_error example_defs)

lemma Sync_builtObjects:
  "snd (GetDeployment config) = None \<Longrightarrow>
   Sync c ctx config i s = syncObjects c ctx config i (builtObjects config) s"
  by (simp add: Sync_def buildObjects_cases)

text \<open>Runs of the concrete client, with which the closed instances are evaluated.\<close>

lemma retryLoop_first:
  "fn s = (r, s') \<Longrightarrow> \<not> isConflictResult r \<Longrightarrow> retryLoop (Suc n) lastErr fn s = (r, s')"
  by (cases r) simp_all

lemma doSync_exampleClient:
  assumes "\<not> isConflictResult (script (world s))"
  shows "doSync (exampleClient secretErr None deleteErr script) ctx obj s =
     (script (world s),
      \<lparr>world = Suc (world s),
       trace = trace s @
         (case obj of
            ObjDeployment expect \<Rightarrow>
              [GetEvent Background DeploymentKind (ObjectKeyFromObject obj)
                 (Some (StatusError NotFound ''deployment not found''))]
          | ObjService expect \<Rightarrow>
              [GetEvent Background ServiceKind (ObjectKeyFromObject obj)
                 (Some (StatusError NotFound ''service not found''))]
          | _ \<Rightarrow> [])
         @ [CreateOrPatchEvent ctx obj None (script (world s))]\<rparr>)"
proof -
  let ?c = "exampleClient secretErr None deleteErr script"
  have cop: "CreateOrPatch ?c ctx obj None s1 =
      (script (world s1),
       \<lparr>world = Suc (world s1),
        trace = trace s1 @ [CreateOrPatchEvent ctx obj None (script (world s1))]\<rparr>)" for s1
    by (simp add: CreateOrPatch_def exampleClient_def)
  have retry: "world s1 = world s \<Longrightarrow>
      RetryOnConflict DefaultRetry (CreateOrPatch ?c ctx obj None) s1 =
      (script (world s1),
       \<lparr>world = Suc (world s1),
        trace = trace s1 @ [CreateOrPatchEvent ctx obj None (script (world s1))]\<rparr>)" for s1
    using assms
    by (simp add: RetryOnConflict_def DefaultRetry_def eval_nat_numeral
          retryLoop_first[OF cop] del: retryLoop.simps)
  show ?thesis
  proof (cases obj)
    case (ObjDeployment expect)
    have sw: "doSync_switch ?c obj s =
        (Inr (obj, None),
         \<lparr>world = world s,
          trace = trace s @ [GetEvent Background DeploymentKind (ObjectKeyFromObject obj)
                 (Some (StatusError NotFound ''deployment not found''))]\<rparr>)"
      by (simp add: doSync_switch_def ObjDeployment clientGetDeployment_def exampleClient_def)
    show ?thesis
      by (simp add: doSync_def sw retry) (simp add: ObjDeployment)
  next
    case (ObjService expect)
    have sw: "doSync_switch ?c obj s =
        (Inr (obj, None),
         \<lparr>world = world s,
          trace = trace s @ [GetEvent Background ServiceKind (ObjectKeyFromObject obj)
                 (Some (StatusError NotFound ''service not found''))]\<rparr>)"
      by (simp add: doSync_switch_def ObjService clientGetService_def exampleClient_def)
    show ?thesis
      by (simp add: doSync_def sw retry) (simp add: ObjService)
  next
    case (ObjServiceAccount x)
    have sw: "doSync_switch ?c obj s = (Inr (obj, None), s)"
      by (simp add: doSync_switch_def ObjServiceAccount)
    show ?thesis
      by (simp add: doSync_def sw retry) (simp add: ObjServiceAccount)
  next
    case (ObjClusterRole x)
    have sw: "doSync_switch ?c obj s = (Inr (obj, None), s)"
      by (simp add: doSync_switch_def ObjClusterRole)
    show ?thesis
      by (simp add: doSync_def sw retry) (simp add: ObjClusterRole)
  next
    case (ObjClusterRoleBinding x)
    have sw: "doSync_switch ?c obj s = (Inr (obj, None), s)"
      by (simp add: doSync_switch_def ObjClusterRoleBinding)
    show ?thesis
      by (simp add: doSync_def sw retry) (simp add: ObjClusterRoleBinding)
  qed
qed

lemma checkSecret_exampleClient:
  "fst (checkSecret (exampleClient None existing deleteErr script) ctx config s) = None
   \<and> world (snd (checkSecret (exampleClient None existing deleteErr script) ctx config s)) = world s"
  by (simp add: checkSecret_def clientGetSecret_def exampleClient_def split: option.splits)

lemma syncObjects_exampleClient:
  assumes "\<forall>n. case script n of None \<Rightarrow> True | Some e \<Rightarrow> IsAlreadyExists e"
  shows "fst (syncObjects (exampleClient None None deleteErr script) ctx config SyncOp objs s) = None"
proof (induction objs arbitrary: s)
  case Nil
  show ?case by simp
next
  case (Cons obj objs)
  let ?c = "exampleClient None None deleteErr script"
  obtain s1 where cs: "checkSecret ?c ctx config s = (None, s1)"
    using checkSecret_exampleClient[of None deleteErr script ctx config s]
    by (cases "checkSecret ?c ctx config s") simp
  have sc: "case script (world s1) of None \<Rightarrow> True | Some e \<Rightarrow> IsAlreadyExists e"
    using assms by blast
  then have nc: "\<not> isConflictResult (script (world s1))"
    by (cases "script (world s1)") (auto elim: IsAlreadyExists.elims)
  have "fst (syncObject ?c ctx config SyncOp obj s) = None"
    using sc by (auto simp add: syncObject_SyncOp cs doSync_exampleClient[where script=script and s=s1, OF nc] split: option.splits)
  then obtain s' where "syncObject ?c ctx config SyncOp obj s = (None, s')"
    by (cases "syncObject ?c ctx config SyncOp obj s") simp
  with Cons.IH[of s'] show ?case by simp
qed

theorem Sync_idempotency_errors_witness:
  "(\<forall>obj w. case fst (cl_Delete
        (exampleClient None None (Some (StatusError NotFound ''not found'')) (\<lambda>n. None))
        (WithCancel 1) obj w) of None \<Rightarrow> True | Some e \<Rightarrow> IsNotFound e)
   \<and> snd (GetDeployment (exampleConfig (exampleAI ''openai'' [] None) None)) = None
   \<and> fst (Sync (exampleClient None None (Some (StatusError NotFound ''not found'')) (\<lambda>n. None))
        (WithCancel 1) (exampleConfig (exampleAI ''openai'' [] None) None) DestroyOp initialState)
      = None
   \<and> fst (doSync (exampleClient None None None alreadyExistsOnce) (WithCancel 1)
        (ObjService (fst (GetService (exampleConfig (exampleAI ''openai'' [] None) None))))
        initialState)
      = Some (StatusError AlreadyExists ''services k8sgpt already exists'')
   \<and> fst (Sync (exampleClient None None None alreadyExistsOnce)
        (WithCancel 1) (exampleConfig (exampleAI ''openai'' [] None) None) SyncOp initialState)
      = None"
proof -
  let ?cfg = "exampleConfig (exampleAI ''openai'' [] None) None"
  let ?d = "exampleClient None None (Some (StatusError NotFound ''not found'')) (\<lambda>n. None)"
  let ?c = "exampleClient None None None alreadyExistsOnce"
  let ?ctx = "WithCancel 1"
  let ?post = "[ObjServiceAccount (fst (GetServiceAccount ?cfg)),
       ObjClusterRole (fst (GetClusterRole ?cfg)),
       ObjClusterRoleBinding (fst (GetClusterRoleBinding ?cfg)),
       ObjDeployment (fst (GetDeployment ?cfg))]"
  let ?ae = "StatusError AlreadyExists ''services k8sgpt already exists''"
  have h1: "\<forall>obj w. case fst (cl_Delete ?d ?ctx obj w) of None \<Rightarrow> True | Some e \<Rightarrow> IsNotFound e"
    by (simp add: exampleClient_def)
  have h2: "snd (GetDeployment ?cfg) = None" by (rule exampleConfig_ok)
  note inst = Sync_idempotency_errors
  have destroy: "fst (Sync ?d ?ctx ?cfg DestroyOp initialState) = None"
    using inst[of ?d ?ctx ?cfg initialState] h1 h2 by blast
  have b: "buildObjects ?cfg = Inr ([] @ ObjService (fst (GetService ?cfg)) # ?post)"
    by (simp add: buildObjects_cases h2)
  have p: "syncObjects ?c ?ctx ?cfg SyncOp [] initialState = (None, initialState)" by simp
  have cs: "checkSecret ?c ?ctx ?cfg initialState = (None, initialState)"
    by (rule checkSecret_None[OF exampleConfig_noSecret])
  have nc: "\<not> isConflictResult (alreadyExistsOnce (world initialState))"
    by (simp add: alreadyExistsOnce_def initialState_def)
  obtain s2 where ds: "doSync ?c ?ctx (ObjService (fst (GetService ?cfg))) initialState
      = (Some ?ae, s2)"
    using doSync_exampleClient[where script=alreadyExistsOnce and s=initialState, OF nc,
            of None None ?ctx "ObjService (fst (GetService ?cfg))"]
    by (simp add: alreadyExistsOnce_def initialState_def)
  have "Sync ?c ?ctx ?cfg SyncOp initialState =
          (if IsAlreadyExists ?ae then syncObjects ?c ?ctx ?cfg SyncOp ?post s2
           else (Some ?ae, s2))"
    using inst[of ?c ?ctx ?cfg initialState] b p cs ds by blast
  then have "fst (Sync ?c ?ctx ?cfg SyncOp initialState) =
     fst (syncObjects ?c ?ctx ?cfg SyncOp ?post s2)"
    by simp
  also have "\<dots> = None"
    by (rule syncObjects_exampleClient) (simp add: alreadyExistsOnce_def)
  finally have sync: "fst (Sync ?c ?ctx ?cfg SyncOp initialState) = None" .
  from h1 h2 destroy ds sync show ?thesis by simp
qed

lemma checkSecret_fails:
  assumes "ai_Secret (sp_AI (cfg_Spec config)) = Some secretRef"
    and "fst (cl_GetSecret c ctx
                \<lparr>key_Namespace = cfg_Namespace config, key_Name = sr_Name secretRef\<rparr> (world s))
           = Inl e"
  shows "fst (checkSecret c ctx config s) =
           Some (ErrorNew ''references secret does not exist, cannot create deployment'')"
proof -
  obtain r w where g: "cl_GetSecret c ctx
      \<lparr>key_Namespace = cfg_Namespace config, key_Name = sr_Name secretRef\<rparr> (world s) = (r, w)"
    by (cases "cl_GetSecret c ctx
      \<lparr>key_Namespace = cfg_Namespace config, key_Name = sr_Name secretRef\<rparr> (world s)")
  with assms(2) have "r = Inl e" by simp
  with g show ?thesis by (simp add: checkSecret_Some[OF assms(1)])
qed

lemma syncObject_checkSecret_fails:
  assumes "fst (checkSecret c ctx config s) = Some e"
  shows "fst (syncObject c ctx config SyncOp obj s) = Some e"
proof -
  from assms obtain s' where "checkSecret c ctx config s = (Some e, s')"
    by (cases "checkSecret c ctx config s") simp
  then show ?thesis by (simp add: syncObject_SyncOp)
qed

text \<open>
  Claim C10. With a configured secret reference, every pass of the loop body in
  synchronize mode starts with one fetch of the secret, issued with the caller's context,
  and makes no other; a pass over the five objects that returns nil has made five.
  Whatever error the fetch returns, for whatever object, the loop body returns the fixed
  error \<^verbatim>\<open>references secret does not exist, cannot create deployment\<close>,
  and so does \<^verbatim>\<open>Sync\<close> when the first fetch fails.
\<close>

theorem Sync_secret_check_per_object:
  fixes c :: "'w Client"
  assumes "ai_Secret (sp_AI (cfg_Spec config)) = Some secretRef"
  shows "(\<forall>obj s'. \<exists>evs.
            trace (snd (syncObject c ctx config SyncOp obj s')) =
              trace s' @
                GetEvent ctx SecretKind
                  \<lparr>key_Namespace = cfg_Namespace config, key_Name = sr_Name secretRef\<rparr>
                  (errorOf (fst (cl_GetSecret c ctx
                     \<lparr>key_Namespace = cfg_Namespace config, key_Name = sr_Name secretRef\<rparr>
                     (world s')))) # evs
            \<and> filter isSecretFetch evs = [])
     \<and> (fst (Sync c ctx config SyncOp s) = None \<longrightarrow>
           secretFetches (trace (snd (Sync c ctx config SyncOp s))) = secretFetches (trace s) + 5)
     \<and> (\<forall>obj s' e.
           fst (cl_GetSecret c ctx
                  \<lparr>key_Namespace = cfg_Namespace config, key_Name = sr_Name secretRef\<rparr>
                  (world s')) = Inl e \<longrightarrow>
           fst (syncObject c ctx config SyncOp obj s') =
             Some (ErrorNew ''references secret does not exist, cannot create deployment''))
     \<and> (\<forall>e. snd (GetDeployment config) = None
           \<and> fst (cl_GetSecret c ctx
                  \<lparr>key_Namespace = cfg_Namespace config, key_Name = sr_Name secretRef\<rparr>
                  (world s)) = Inl e \<longrightarrow>
           fst (Sync c ctx config SyncOp s) =
             Some (ErrorNew ''references secret does not exist, cannot create deployment''))"
proof (intro conjI allI impI)
  fix obj s'
  from syncObject_SyncOp_trace[of c ctx config obj s'] obtain evs where
    "trace (snd (syncObject c ctx config SyncOp obj s')) =
            trace (snd (checkSecret c ctx config s')) @ evs" "filter isSecretFetch evs = []"
    by blast
  then show "\<exists>evs.
            trace (snd (syncObject c ctx config SyncOp obj s')) =
              trace s' @
                GetEvent ctx SecretKind
                  \<lparr>key_Namespace = cfg_Namespace config, key_Name = sr_Name secretRef\<rparr>
                  (errorOf (fst (cl_GetSecret c ctx
                     \<lparr>key_Namespace = cfg_Namespace config, key_Name = sr_Name secretRef\<rparr>
                     (world s')))) # evs
            \<and> filter isSecretFetch evs = []"
    using assms by (intro exI[of _ evs]) (simp add: checkSecret_trace)
next
  assume ok: "fst (Sync c ctx config SyncOp s) = None"
  have b: "snd (GetDeployment config) = None"
  proof (cases "snd (GetDeployment config)")
    case (Some er)
    with ok show ?thesis by (simp add: Sync_def buildObjects_cases)
  qed simp
  have eq: "Sync c ctx config SyncOp s = syncObjects c ctx config SyncOp (builtObjects config) s"
    by (rule Sync_builtObjects[OF b])
  from syncObjects_SyncOp_secretFetches[OF assms, of c ctx "builtObjects config" s] ok
  show "secretFetches (trace (snd (Sync c ctx config SyncOp s))) = secretFetches (trace s) + 5"
    by (simp only: eq) simp
next
  fix obj and s' :: "'w State" and e
  assume f: "fst (cl_GetSecret c ctx
                  \<lparr>key_Namespace = cfg_Namespace config, key_Name = sr_Name secretRef\<rparr>
                  (world s')) = Inl e"
  show "fst (syncObject c ctx config SyncOp obj s') =
             Some (ErrorNew ''references secret does not exist, cannot create deployment'')"
    by (rule syncObject_checkSecret_fails[OF checkSecret_fails[OF assms f]])
next
  fix e
  assume a: "snd (GetDeployment config) = None
           \<and> fst (cl_GetSecret c ctx
                  \<lparr>key_Namespace = cfg_Namespace config, key_Name = sr_Name secretRef\<rparr>
                  (world s)) = Inl e"
  then have "fst (syncObject c ctx config SyncOp (ObjService (fst (GetService config))) s) =
             Some (ErrorNew ''references secret does not exist, cannot create deployment'')"
    by (intro syncObject_checkSecret_fails checkSecret_fails[OF assms]) simp
  then have "fst (syncObjects c ctx config SyncOp (builtObjects config) s) =
             Some (ErrorNew ''references secret does not exist, cannot create deployment'')"
    by (cases "syncObject c ctx config SyncOp (ObjService (fst (GetService config))) s") simp
  with a show "fst (Sync c ctx config SyncOp s) =
             Some (ErrorNew ''references secret does not exist, cannot create deployment'')"
    by (simp add: Sync_builtObjects)
qed

theorem Sync_secret_check_per_object_witness:
  "ai_Secret (sp_AI (cfg_Spec secretConfig))
     = Some \<lparr>sr_Name = ''k8sgpt-secret'', sr_Key = ''openai-api-key''\<rparr>
   \<and> fst (Sync (exampleClient None None None (\<lambda>n. None)) (WithCancel 1) secretConfig SyncOp
        initialState) = None
   \<and> secretFetches (trace (snd (Sync (exampleClient None None None (\<lambda>n. None)) (WithCancel 1)
        secretConfig SyncOp initialState))) = 5
   \<and> snd (GetDeployment secretConfig) = None
   \<and> fst (cl_GetSecret
        (exampleClient (Some (StatusError (OtherReason ''Forbidden'') ''secrets is forbidden''))
           None None (\<lambda>n. None))
        (WithCancel 1)
        \<lparr>key_Namespace = cfg_Namespace secretConfig, key_Name = ''k8sgpt-secret''\<rparr>
        (world initialState))
      = Inl (StatusError (OtherReason ''Forbidden'') ''secrets is forbidden'')
   \<and> fst (Sync
        (exampleClient (Some (StatusError (OtherReason ''Forbidden'') ''secrets is forbidden''))
           None None (\<lambda>n. None))
        (WithCancel 1) secretConfig SyncOp initialState)
      = Some (ErrorNew ''references secret does not exist, cannot create deployment'')"
proof -
  let ?ok = "exampleClient None None None (\<lambda>n. None)"
  let ?bad = "exampleClient (Some (StatusError (OtherReason ''Forbidden'') ''secrets is forbidden''))
           None None (\<lambda>n. None)"
  let ?ctx = "WithCancel 1"
  note inst = Sync_secret_check_per_object [OF secretConfig_secret]
  have run: "fst (Sync ?ok ?ctx secretConfig SyncOp initialState) = None"
    by (simp only: Sync_builtObjects[OF secretConfig_ok])
       (rule syncObjects_exampleClient, simp)
  have cnt: "secretFetches (trace (snd (Sync ?ok ?ctx secretConfig SyncOp initialState))) = 5"
    using inst[of ?ok ?ctx initialState] run
    by (simp add: initialState_def secretFetches_def)
  have f: "fst (cl_GetSecret ?bad ?ctx
        \<lparr>key_Namespace = cfg_Namespace secretConfig,
          key_Name = sr_Name \<lparr>sr_Name = ''k8sgpt-secret'', sr_Key = ''openai-api-key''\<rparr>\<rparr>
        (world initialState))
      = Inl (StatusError (OtherReason ''Forbidden'') ''secrets is forbidden'')"
    by (simp add: exampleClient_def)
  have err: "fst (Sync ?bad ?ctx secretConfig SyncOp initialState)
      = Some (ErrorNew ''references secret does not exist, cannot create deployment'')"
    using inst[of ?bad ?ctx initialState] secretConfig_ok f by blast
  from secretConfig_secret run cnt secretConfig_ok f err show ?thesis by simp
qed

text \<open>
  Claim C8 fails on the code. In a synchronize pass with the caller's context
  \<open>WithCancel 1\<close>, in a cluster where nothing exists yet, the contexts of the seven calls
  are these: the two existence fetches of \<^verbatim>\<open>doSync\<close> (for the Service and for the
  Deployment) are issued with \<^verbatim>\<open>context.Background()\<close>, the five calls of \<^verbatim>\<open>CreateOrPatch\<close> with
  the caller's context.
\<close>

theorem doSync_fetch_ignores_context:
  "map eventContext (trace (snd
      (Sync (exampleClient None None None (\<lambda>n. None)) (WithCancel 1)
         (exampleConfig (exampleAI ''openai'' [] None) None) SyncOp initialState)))
     = [Background, WithCancel 1, WithCancel 1, WithCancel 1, WithCancel 1,
        Background, WithCancel 1]"
  by (simp add: Sync_builtObjects[OF exampleConfig_ok] syncObject_SyncOp
        checkSecret_None[OF exampleConfig_noSecret] doSync_exampleClient initialState_def)

end
